theory Spec2Isabelle
  imports Main "HOL-Library.Word"
begin

section \<open>Data model\<close>

text \<open>
  The records follow the Go structs of \<^verbatim>\<open>api/v1alpha1\<close> and of the Kubernetes and
  Gateway API packages as far as the controllers read or write them. A Go
  \<^verbatim>\<open>map[string]string\<close> is an association list with distinct keys (the order of
  the list is the order of the map literal); a pointer field is an \<open>option\<close>; a
  nil slice is the empty list.
\<close>

type_synonym labels = "(string \<times> string) list"

record OwnerReference =
  or_APIVersion :: string
  or_Kind :: string
  or_Name :: string
  or_UID :: string
  or_Controller :: "bool option"
  or_BlockOwnerDeletion :: "bool option"

text \<open>\<^verbatim>\<open>metav1.ObjectMeta\<close>: the deletion timestamp is a point in time (0 is Go's zero time).\<close>

record ObjectMeta =
  Name :: string
  Namespace :: string
  UID :: string
  ResourceVersion :: string
  Labels :: labels
  OwnerReferences :: "OwnerReference list"
  Finalizers :: "string list"
  DeletionTimestamp :: "nat option"

record TypeMeta =
  APIVersion :: string
  Kind :: string

record GroupVersionKind =
  gvk_Group :: string
  gvk_Version :: string
  gvk_Kind :: string

datatype ConditionStatus = ConditionTrue | ConditionFalse | ConditionUnknown

text \<open>\<^verbatim>\<open>metav1.Condition\<close> without its wall-clock field \<^verbatim>\<open>LastTransitionTime\<close>.\<close>

record Condition =
  cond_Type :: string
  cond_Status :: ConditionStatus
  cond_Reason :: string
  cond_Message :: string

subsection \<open>Identity record (AgentCard)\<close>

record AgentSkill =
  skill_Name :: string
  skill_Description :: string

record AgentCardSpec =
  Description :: string
  Skills :: "AgentSkill list"
  Protocols :: "string list"
  ServicePort :: "32 word"

record AgentCardStatus =
  card_Conditions :: "Condition list"
  GeneratedHTTPRoute :: string

record AgentCard =
  card_Meta :: ObjectMeta
  card_Spec :: AgentCardSpec
  card_Status :: AgentCardStatus

subsection \<open>Policy record (AgentPolicy)\<close>

text \<open>
  The declaration of \<^verbatim>\<open>AgentPolicy\<close> is taken from the fields the controller and its
  tests use: \<^verbatim>\<open>Spec.AgentSelector.MatchLabels\<close>, \<^verbatim>\<open>Spec.Ingress\<close>, \<^verbatim>\<open>Spec.Agents\<close>,
  \<^verbatim>\<open>Spec.External\<close>, \<^verbatim>\<open>Spec.RateLimit\<close> (the three sections are pointers) and the
  status block. \<^verbatim>\<open>RequestsPerMinute\<close> is a Go \<^verbatim>\<open>int\<close>; its conversion to
  \<^verbatim>\<open>int64\<close> keeps the value.
\<close>

record IngressPolicy =
  AllowedAgents :: "string list"
  AllowedUsers :: "string list"

record RateLimitSpec =
  RequestsPerMinute :: int

record ExternalRule =
  Host :: string
  Mode :: string
  VaultPath :: string
  Audience :: string
  Scopes :: "string list"
  Header :: string
  HeaderPrefix :: string

record ExternalPolicy =
  DefaultMode :: string
  ext_Rules :: "ExternalRule list"

record AgentSelector =
  MatchLabels :: labels

record AgentPolicySpec =
  AgentSelector :: AgentSelector
  Ingress :: "IngressPolicy option"
  Agents :: "string list"
  External :: "ExternalPolicy option"
  RateLimit :: "RateLimitSpec option"

record GeneratedResourceRef =
  ref_Kind :: string
  ref_Name :: string

record AgentPolicyStatus =
  MatchedAgentCards :: nat
  GeneratedResources :: "GeneratedResourceRef list"
  policy_Conditions :: "Condition list"

record AgentPolicy =
  policy_Meta :: ObjectMeta
  policy_Spec :: AgentPolicySpec
  policy_Status :: AgentPolicyStatus

subsection \<open>Routing record (Gateway API HTTPRoute)\<close>

record ParentReference =
  pr_Group :: "string option"
  pr_Kind :: "string option"
  pr_Namespace :: "string option"
  pr_Name :: string

record HTTPPathMatch =
  pm_Type :: "string option"
  pm_Value :: "string option"

record HTTPRouteMatch =
  Path :: "HTTPPathMatch option"

text \<open>A backend reference, with the name and port of its \<^verbatim>\<open>BackendObjectReference\<close>.\<close>

record HTTPBackendRef =
  br_Name :: string
  br_Port :: "32 word option"

record HTTPRouteRule =
  Matches :: "HTTPRouteMatch list"
  BackendRefs :: "HTTPBackendRef list"

record HTTPRouteSpec =
  ParentRefs :: "ParentReference list"
  Rules :: "HTTPRouteRule list"

record HTTPRoute =
  route_TypeMeta :: TypeMeta
  route_Meta :: ObjectMeta
  route_Spec :: HTTPRouteSpec

subsection \<open>Schema-less records (unstructured.Unstructured)\<close>

text \<open>The values of Go's \<^verbatim>\<open>interface{}\<close> that the builders store in an unstructured object.\<close>

datatype uval =
    VString string
  | VInt int
  | VBool bool
  | VList "uval list"
  | VMap "(string \<times> uval) list"

type_synonym unstructured = "(string \<times> uval) list"

subsection \<open>Configuration blob (ConfigMap) and its document\<close>

record sidecarGateway =
  gw_Host :: string
  gw_Mode :: string

record sidecarExternalRule =
  sr_Host :: string
  sr_Mode :: string
  sr_VaultPath :: string
  sr_Audience :: string
  sr_Scopes :: "string list"
  sr_Header :: string
  sr_HeaderPrefix :: string

record sidecarExternal =
  se_Rules :: "sidecarExternalRule list"
  se_DefaultMode :: string

record sidecarConfig =
  cfg_Gateway :: sidecarGateway
  cfg_AllowedAgents :: "string list"
  cfg_External :: sidecarExternal

record ConfigMap =
  cm_TypeMeta :: TypeMeta
  cm_Meta :: ObjectMeta
  cm_Data :: "(string \<times> string) list"

subsection \<open>Egress-control record (NetworkPolicy)\<close>

datatype IntOrString = FromInt32 "32 word" | FromString string

record LabelSelector =
  ls_MatchLabels :: labels
  ls_MatchExpressions :: "(string \<times> string \<times> string list) list"

record NetworkPolicyPort =
  npp_Protocol :: "string option"
  npp_Port :: "IntOrString option"

record NetworkPolicyPeer =
  PodSelector :: "LabelSelector option"
  NamespaceSelector :: "LabelSelector option"
  IPBlock :: "(string \<times> string list) option"

record NetworkPolicyEgressRule =
  Ports :: "NetworkPolicyPort list"
  To :: "NetworkPolicyPeer list"

record NetworkPolicySpec =
  np_PodSelector :: LabelSelector
  np_Egress :: "NetworkPolicyEgressRule list"
  np_PolicyTypes :: "string list"

record NetworkPolicy =
  np_TypeMeta :: TypeMeta
  np_Meta :: ObjectMeta
  np_Spec :: NetworkPolicySpec

section \<open>Go maps and strings\<close>

text \<open>Reading a Go map at an absent key gives the zero value, here the empty string.\<close>

definition map_index :: "labels \<Rightarrow> string \<Rightarrow> string" where
  "map_index m k = (case map_of m k of None \<Rightarrow> [] | Some v \<Rightarrow> v)"

text \<open>Assignment \<^verbatim>\<open>m[k] = v\<close>.\<close>

fun map_set :: "'k \<Rightarrow> 'v \<Rightarrow> ('k \<times> 'v) list \<Rightarrow> ('k \<times> 'v) list" where
  "map_set k v [] = [(k, v)]"
| "map_set k v ((k', v') # m) = (if k' = k then (k, v) # m else (k', v') # map_set k v m)"

text \<open>\<^verbatim>\<open>strings.Contains(name, "/")\<close> and \<^verbatim>\<open>strings.SplitN(name, "/", 2)\<close>.\<close>

definition Contains_slash :: "string \<Rightarrow> bool" where
  "Contains_slash s = (CHR ''/'' \<in> set s)"

definition SplitN_slash_2 :: "string \<Rightarrow> string list" where
  "SplitN_slash_2 s =
     (if Contains_slash s
      then [takeWhile (\<lambda>c. c \<noteq> CHR ''/'') s, tl (dropWhile (\<lambda>c. c \<noteq> CHR ''/'') s)]
      else [s])"

section \<open>Selector matcher\<close>

text \<open>
  \<^verbatim>\<open>labelsMatchSelector\<close>: the loop over the selector map, leaving with false at the
  first entry whose value differs from what the object's map gives for the key.
\<close>

fun labelsMatchSelector :: "labels \<Rightarrow> labels \<Rightarrow> bool" where
  "labelsMatchSelector objectLabels [] = True"
| "labelsMatchSelector objectLabels ((key, val) # selectorLabels) =
     (if map_index objectLabels key \<noteq> val then False
      else labelsMatchSelector objectLabels selectorLabels)"

section \<open>Resource synthesizer\<close>

definition labelManagedBy :: string where "labelManagedBy = ''kagenti.com/managed-by''"
definition labelAgentCard :: string where "labelAgentCard = ''kagenti.com/agent-card''"
definition managedByValue :: string where "managedByValue = ''agent-access-control''"

definition commonLabels :: "string \<Rightarrow> labels" where
  "commonLabels cardName = [(labelManagedBy, managedByValue), (labelAgentCard, cardName)]"

definition GroupVersion_String :: "GroupVersionKind \<Rightarrow> string" where
  "GroupVersion_String gvk =
     (if gvk_Group gvk = [] then gvk_Version gvk else gvk_Group gvk @ ''/'' @ gvk_Version gvk)"

definition AgentCardGVK :: GroupVersionKind where
  "AgentCardGVK = \<lparr>gvk_Group = ''kagenti.com'', gvk_Version = ''v1alpha1'', gvk_Kind = ''AgentCard''\<rparr>"

definition AgentPolicyGVK :: GroupVersionKind where
  "AgentPolicyGVK = \<lparr>gvk_Group = ''kagenti.com'', gvk_Version = ''v1alpha1'', gvk_Kind = ''AgentPolicy''\<rparr>"

definition setOwnerRef :: "ObjectMeta \<Rightarrow> ObjectMeta \<Rightarrow> GroupVersionKind \<Rightarrow> ObjectMeta" where
  "setOwnerRef obj owner gvk =
     obj\<lparr>OwnerReferences :=
       [\<lparr>or_APIVersion = GroupVersion_String gvk,
         or_Kind = gvk_Kind gvk,
         or_Name = Name owner,
         or_UID = UID owner,
         or_Controller = Some True,
         or_BlockOwnerDeletion = Some True\<rparr>]\<rparr>"

text \<open>An \<^verbatim>\<open>ObjectMeta\<close> literal that sets name, namespace and labels only.\<close>

definition new_ObjectMeta :: "string \<Rightarrow> string \<Rightarrow> labels \<Rightarrow> ObjectMeta" where
  "new_ObjectMeta n ns ls =
     \<lparr>Name = n, Namespace = ns, UID = [], ResourceVersion = [], Labels = ls,
      OwnerReferences = [], Finalizers = [], DeletionTimestamp = None\<rparr>"

definition BuildHTTPRoute :: "AgentCard \<Rightarrow> string \<Rightarrow> string \<Rightarrow> HTTPRoute" where
  "BuildHTTPRoute acard gatewayName gatewayNamespace =
     (let port0 = ServicePort (card_Spec acard);
          port = (if port0 = 0 then 8080 else port0);
          pathValue = ''/agents/'' @ Name (card_Meta acard);
          svcName = Name (card_Meta acard) @ ''-svc'';
          route =
            \<lparr>route_TypeMeta = \<lparr>APIVersion = ''gateway.networking.k8s.io/v1'', Kind = ''HTTPRoute''\<rparr>,
             route_Meta = new_ObjectMeta (''agent-'' @ Name (card_Meta acard))
                            (Namespace (card_Meta acard)) (commonLabels (Name (card_Meta acard))),
             route_Spec =
               \<lparr>ParentRefs =
                  [\<lparr>pr_Group = Some ''gateway.networking.k8s.io'',
                    pr_Kind = Some ''Gateway'',
                    pr_Namespace = Some gatewayNamespace,
                    pr_Name = gatewayName\<rparr>],
                Rules =
                  [\<lparr>Matches = [\<lparr>Path = Some \<lparr>pm_Type = Some ''PathPrefix'', pm_Value = Some pathValue\<rparr>\<rparr>],
                    BackendRefs = [\<lparr>br_Name = svcName, br_Port = Some port\<rparr>]\<rparr>]\<rparr>\<rparr>
      in route\<lparr>route_Meta := setOwnerRef (route_Meta route) (card_Meta acard) AgentCardGVK\<rparr>)"

definition resolveServiceAccount :: "string \<Rightarrow> string \<Rightarrow> string" where
  "resolveServiceAccount name policyNamespace =
     (if Contains_slash name
      then (let parts = SplitN_slash_2 name
            in ''system:serviceaccount:'' @ parts ! 0 @ '':'' @ parts ! 1)
      else ''system:serviceaccount:'' @ policyNamespace @ '':'' @ name)"

definition labelsToUnstructured :: "labels \<Rightarrow> (string \<times> uval) list" where
  "labelsToUnstructured ls = map (\<lambda>(k, v). (k, VString v)) ls"

definition setUnstructuredOwnerRef :: "unstructured \<Rightarrow> ObjectMeta \<Rightarrow> GroupVersionKind \<Rightarrow> unstructured" where
  "setUnstructuredOwnerRef obj owner gvk =
     (let ownerRef = VMap
            [(''apiVersion'', VString (GroupVersion_String gvk)),
             (''kind'', VString (gvk_Kind gvk)),
             (''name'', VString (Name owner)),
             (''uid'', VString (UID owner)),
             (''controller'', VBool True),
             (''blockOwnerDeletion'', VBool True)];
          metadata = (case map_of obj ''metadata'' of Some (VMap m) \<Rightarrow> m | _ \<Rightarrow> [])
      in map_set ''metadata'' (VMap (map_set ''ownerReferences'' (VList [ownerRef]) metadata)) obj)"

definition BuildAuthPolicy :: "AgentPolicy \<Rightarrow> AgentCard \<Rightarrow> string \<Rightarrow> unstructured" where
  "BuildAuthPolicy policy acard httpRouteName =
     (let predicates =
            (case Ingress (policy_Spec policy) of
               None \<Rightarrow> []
             | Some ingress \<Rightarrow>
                 map (\<lambda>agent. VMap
                        [(''selector'', VString ''auth.identity.sub''),
                         (''operator'', VString ''eq''),
                         (''value'', VString (resolveServiceAccount agent (Namespace (policy_Meta policy))))])
                   (AllowedAgents ingress));
          authPolicy =
            [(''apiVersion'', VString ''kuadrant.io/v1''),
             (''kind'', VString ''AuthPolicy''),
             (''metadata'', VMap
                [(''name'', VString (''ap-'' @ Name (card_Meta acard))),
                 (''namespace'', VString (Namespace (policy_Meta policy))),
                 (''labels'', VMap (labelsToUnstructured (commonLabels (Name (card_Meta acard)))))]),
             (''spec'', VMap
                [(''targetRef'', VMap
                    [(''group'', VString ''gateway.networking.k8s.io''),
                     (''kind'', VString ''HTTPRoute''),
                     (''name'', VString httpRouteName)]),
                 (''rules'', VMap
                    [(''authentication'', VMap
                        [(''jwt-auth'', VMap
                            [(''jwt'', VMap [(''issuerUrl'', VString ''https://issuer.example.com'')])])]),
                     (''authorization'', VMap
                        [(''agent-access'', VMap
                            [(''patternMatching'', VMap [(''patterns'', VList predicates)])])])])])]
      in setUnstructuredOwnerRef authPolicy (policy_Meta policy) AgentPolicyGVK)"

definition BuildRateLimitPolicy :: "AgentPolicy \<Rightarrow> AgentCard \<Rightarrow> string \<Rightarrow> unstructured" where
  "BuildRateLimitPolicy policy acard httpRouteName =
     (let rpm = (case RateLimit (policy_Spec policy) of
                   None \<Rightarrow> 60
                 | Some rl \<Rightarrow> RequestsPerMinute rl);
          rlp =
            [(''apiVersion'', VString ''kuadrant.io/v1''),
             (''kind'', VString ''RateLimitPolicy''),
             (''metadata'', VMap
                [(''name'', VString (''rlp-'' @ Name (card_Meta acard))),
                 (''namespace'', VString (Namespace (policy_Meta policy))),
                 (''labels'', VMap (labelsToUnstructured (commonLabels (Name (card_Meta acard)))))]),
             (''spec'', VMap
                [(''targetRef'', VMap
                    [(''group'', VString ''gateway.networking.k8s.io''),
                     (''kind'', VString ''HTTPRoute''),
                     (''name'', VString httpRouteName)]),
                 (''limits'', VMap
                    [(''agent-rate-limit'', VMap
                        [(''rates'', VList [VMap [(''limit'', VInt rpm), (''window'', VString ''1m'')]])])])])]
      in setUnstructuredOwnerRef rlp (policy_Meta policy) AgentPolicyGVK)"

text \<open>
  \<^verbatim>\<open>BuildSidecarConfigMap\<close>. The YAML encoder is a function of the library
  \<^verbatim>\<open>sigs.k8s.io/yaml\<close>, taken as the parameter \<open>Marshal\<close>: it gives the text of a
  document or fails, and then the builder fails with it.
\<close>

type_synonym marshal = "sidecarConfig \<Rightarrow> string + string"

definition sidecarRule :: "ExternalRule \<Rightarrow> sidecarExternalRule" where
  "sidecarRule r =
     \<lparr>sr_Host = Host r, sr_Mode = Mode r, sr_VaultPath = VaultPath r, sr_Audience = Audience r,
      sr_Scopes = Scopes r, sr_Header = Header r, sr_HeaderPrefix = HeaderPrefix r\<rparr>"

definition buildSidecarConfig :: "AgentPolicy \<Rightarrow> AgentCard \<Rightarrow> sidecarConfig" where
  "buildSidecarConfig policy acard =
     \<lparr>cfg_Gateway = \<lparr>gw_Host = ''agent-gateway.'' @ Namespace (card_Meta acard) @ ''.svc.cluster.local'',
                      gw_Mode = ''passthrough''\<rparr>,
      cfg_AllowedAgents = Agents (policy_Spec policy),
      cfg_External =
        (case External (policy_Spec policy) of
           None \<Rightarrow> \<lparr>se_Rules = [], se_DefaultMode = []\<rparr>
         | Some ext \<Rightarrow> \<lparr>se_Rules = map sidecarRule (ext_Rules ext), se_DefaultMode = DefaultMode ext\<rparr>)\<rparr>"

definition BuildSidecarConfigMap :: "marshal \<Rightarrow> AgentPolicy \<Rightarrow> AgentCard \<Rightarrow> string + ConfigMap" where
  "BuildSidecarConfigMap Marshal policy acard =
     (case Marshal (buildSidecarConfig policy acard) of
        Inl err \<Rightarrow> Inl (''failed to marshal sidecar config: '' @ err)
      | Inr data \<Rightarrow>
          Inr \<lparr>cm_TypeMeta = \<lparr>APIVersion = ''v1'', Kind = ''ConfigMap''\<rparr>,
               cm_Meta = setOwnerRef
                           (new_ObjectMeta (''sidecar-config-'' @ Name (card_Meta acard))
                              (Namespace (card_Meta acard)) (commonLabels (Name (card_Meta acard))))
                           (policy_Meta policy) AgentPolicyGVK,
               cm_Data = [(''config.yaml'', data)]\<rparr>)"

definition BuildMCPServerRegistration :: "AgentCard \<Rightarrow> string \<Rightarrow> unstructured" where
  "BuildMCPServerRegistration acard httpRouteName =
     (let mcpReg =
            [(''apiVersion'', VString ''mcp.kagenti.com/v1alpha1''),
             (''kind'', VString ''MCPServerRegistration''),
             (''metadata'', VMap
                [(''name'', VString (''mcp-'' @ Name (card_Meta acard))),
                 (''namespace'', VString (Namespace (card_Meta acard))),
                 (''labels'', VMap (labelsToUnstructured (commonLabels (Name (card_Meta acard)))))]),
             (''spec'', VMap
                [(''targetRef'', VMap
                    [(''group'', VString ''gateway.networking.k8s.io''),
                     (''kind'', VString ''HTTPRoute''),
                     (''name'', VString httpRouteName)]),
                 (''toolPrefix'', VString (Name (card_Meta acard) @ ''_'')),
                 (''path'', VString ''/mcp'')])]
      in setUnstructuredOwnerRef mcpReg (card_Meta acard) AgentCardGVK)"

definition BuildNetworkPolicy :: "AgentPolicy \<Rightarrow> AgentCard \<Rightarrow> NetworkPolicy" where
  "BuildNetworkPolicy policy acard =
     (let dnsPort = FromInt32 53;
          dnsEgressRule =
            \<lparr>Ports = [\<lparr>npp_Protocol = Some ''UDP'', npp_Port = Some dnsPort\<rparr>,
                      \<lparr>npp_Protocol = Some ''TCP'', npp_Port = Some dnsPort\<rparr>],
             To = []\<rparr>;
          gatewayEgressRule =
            \<lparr>Ports = [],
             To = [\<lparr>PodSelector = None,
                    NamespaceSelector = Some \<lparr>ls_MatchLabels = [], ls_MatchExpressions = []\<rparr>,
                    IPBlock = None\<rparr>]\<rparr>
      in \<lparr>np_TypeMeta = \<lparr>APIVersion = ''networking.k8s.io/v1'', Kind = ''NetworkPolicy''\<rparr>,
          np_Meta = setOwnerRef
                      (new_ObjectMeta (''egress-'' @ Name (card_Meta acard))
                         (Namespace (card_Meta acard)) (commonLabels (Name (card_Meta acard))))
                      (policy_Meta policy) AgentPolicyGVK,
          np_Spec =
            \<lparr>np_PodSelector = \<lparr>ls_MatchLabels = [(''kagenti.com/agent-card'', Name (card_Meta acard))],
                               ls_MatchExpressions = []\<rparr>,
             np_Egress = [dnsEgressRule, gatewayEgressRule],
             np_PolicyTypes = [''Egress'']\<rparr>\<rparr>)"

text \<open>Reading an unstructured object: \<^verbatim>\<open>NestedString\<close> gives the empty string where the path ends.\<close>

fun NestedField :: "(string \<times> uval) list \<Rightarrow> string list \<Rightarrow> uval option" where
  "NestedField obj [] = Some (VMap obj)"
| "NestedField obj [k] = map_of obj k"
| "NestedField obj (k # ks) =
     (case map_of obj k of Some (VMap m) \<Rightarrow> NestedField m ks | _ \<Rightarrow> None)"

definition NestedString :: "(string \<times> uval) list \<Rightarrow> string list \<Rightarrow> string" where
  "NestedString obj path = (case NestedField obj path of Some (VString s) \<Rightarrow> s | _ \<Rightarrow> [])"

definition GetName :: "unstructured \<Rightarrow> string" where
  "GetName u = NestedString u [''metadata'', ''name'']"

definition GetNamespace :: "unstructured \<Rightarrow> string" where
  "GetNamespace u = NestedString u [''metadata'', ''namespace'']"

definition GetAPIVersion :: "unstructured \<Rightarrow> string" where
  "GetAPIVersion u = NestedString u [''apiVersion'']"

definition GetKind :: "unstructured \<Rightarrow> string" where
  "GetKind u = NestedString u [''kind'']"

definition GetResourceVersion :: "unstructured \<Rightarrow> string" where
  "GetResourceVersion u = NestedString u [''metadata'', ''resourceVersion'']"

text \<open>\<^verbatim>\<open>SetResourceVersion\<close>: the empty version removes the field.\<close>

definition SetResourceVersion :: "unstructured \<Rightarrow> string \<Rightarrow> unstructured" where
  "SetResourceVersion u rv =
     (case map_of u ''metadata'' of
        Some (VMap m) \<Rightarrow>
          map_set ''metadata''
            (VMap (if rv = [] then filter (\<lambda>(k, v). k \<noteq> ''resourceVersion'') m
                   else map_set ''resourceVersion'' (VString rv) m)) u
      | Some other \<Rightarrow> u
      | None \<Rightarrow>
          if rv = [] then u
          else map_set ''metadata'' (VMap [(''resourceVersion'', VString rv)]) u)"

section \<open>The platform client\<close>

text \<open>
  The controllers reach the platform through controller-runtime's \<^verbatim>\<open>client.Client\<close>.
  That client is not code of this repository: it is a parameter of the model, a record
  of the operations over a platform state of any type \<open>'s\<close>. Each operation answers
  with an error or with the object as the platform holds it. What a reconcile does to
  the platform is the sequence of calls it issues, kept in a trace with the outcome of
  each call.
\<close>

datatype StatusReason =
    ReasonNotFound | ReasonAlreadyExists | ReasonConflict | ReasonForbidden | ReasonInternalError

datatype client_error =
    StatusError StatusReason string
  | NoKindMatchError string
  | OtherError string

definition IsNotFound :: "client_error \<Rightarrow> bool" where
  "IsNotFound err = (case err of StatusError ReasonNotFound m \<Rightarrow> True | _ \<Rightarrow> False)"

definition IsNoMatchError :: "client_error \<Rightarrow> bool" where
  "IsNoMatchError err = (case err of NoKindMatchError m \<Rightarrow> True | _ \<Rightarrow> False)"

definition Error_text :: "client_error \<Rightarrow> string" where
  "Error_text err = (case err of StatusError r m \<Rightarrow> m | NoKindMatchError m \<Rightarrow> m | OtherError m \<Rightarrow> m)"

datatype kind =
    AgentCardKind | AgentPolicyKind | HTTPRouteKind | ConfigMapKind | NetworkPolicyKind
  | UnstructuredKind string string

datatype resource =
    CardObject AgentCard
  | PolicyObject AgentPolicy
  | RouteObject HTTPRoute
  | ConfigMapObject ConfigMap
  | NetworkPolicyObject NetworkPolicy
  | UnstructuredObject unstructured

datatype call =
    CallGet kind string string
  | CallList kind string labels
  | CallCreate resource
  | CallUpdate resource
  | CallStatusUpdate resource
  | CallDelete resource

record 's client =
  client_Get :: "kind \<Rightarrow> string \<Rightarrow> string \<Rightarrow> 's \<Rightarrow> (client_error + resource) \<times> 's"
  client_List :: "kind \<Rightarrow> string \<Rightarrow> labels \<Rightarrow> 's \<Rightarrow> (client_error + resource list) \<times> 's"
  client_Create :: "resource \<Rightarrow> 's \<Rightarrow> (client_error + resource) \<times> 's"
  client_Update :: "resource \<Rightarrow> 's \<Rightarrow> (client_error + resource) \<times> 's"
  client_StatusUpdate :: "resource \<Rightarrow> 's \<Rightarrow> (client_error + resource) \<times> 's"
  client_Delete :: "resource \<Rightarrow> 's \<Rightarrow> (client_error + resource) \<times> 's"

record 's world =
  platform :: 's
  trace :: "(call \<times> client_error option) list"

definition err_of :: "client_error + 'a \<Rightarrow> client_error option" where
  "err_of r = (case r of Inl e \<Rightarrow> Some e | Inr x \<Rightarrow> None)"

text \<open>
  A typed call decodes the answer into the Go type of the object it was given; an answer
  of another type is a failure of the call.
\<close>

definition decode_with :: "('r \<Rightarrow> 'a option) \<Rightarrow> client_error + 'r \<Rightarrow> client_error + 'a" where
  "decode_with dec r =
     (case r of
        Inl e \<Rightarrow> Inl e
      | Inr x \<Rightarrow> (case dec x of None \<Rightarrow> Inl (OtherError ''cannot decode the response'')
                               | Some y \<Rightarrow> Inr y))"

definition call_client ::
  "call \<Rightarrow> ('r \<Rightarrow> 'a option) \<Rightarrow> ('s \<Rightarrow> (client_error + 'r) \<times> 's) \<Rightarrow> 's world
     \<Rightarrow> (client_error + 'a) \<times> 's world" where
  "call_client c dec f w =
     (case f (platform w) of
        (r, s') \<Rightarrow>
          (decode_with dec r,
           \<lparr>platform = s', trace = trace w @ [(c, err_of (decode_with dec r))]\<rparr>))"

definition as_card :: "resource \<Rightarrow> AgentCard option" where
  "as_card r = (case r of CardObject x \<Rightarrow> Some x | _ \<Rightarrow> None)"

definition as_policy :: "resource \<Rightarrow> AgentPolicy option" where
  "as_policy r = (case r of PolicyObject x \<Rightarrow> Some x | _ \<Rightarrow> None)"

definition as_route :: "resource \<Rightarrow> HTTPRoute option" where
  "as_route r = (case r of RouteObject x \<Rightarrow> Some x | _ \<Rightarrow> None)"

definition as_configmap :: "resource \<Rightarrow> ConfigMap option" where
  "as_configmap r = (case r of ConfigMapObject x \<Rightarrow> Some x | _ \<Rightarrow> None)"

definition as_unstructured :: "resource \<Rightarrow> unstructured option" where
  "as_unstructured r = (case r of UnstructuredObject x \<Rightarrow> Some x | _ \<Rightarrow> None)"

definition Get_as ::
  "'s client \<Rightarrow> (resource \<Rightarrow> 'a option) \<Rightarrow> kind \<Rightarrow> string \<Rightarrow> string \<Rightarrow> 's world
     \<Rightarrow> (client_error + 'a) \<times> 's world" where
  "Get_as C dec k ns n = call_client (CallGet k ns n) dec (client_Get C k ns n)"

definition List_as ::
  "'s client \<Rightarrow> (resource \<Rightarrow> 'a option) \<Rightarrow> kind \<Rightarrow> string \<Rightarrow> labels \<Rightarrow> 's world
     \<Rightarrow> (client_error + 'a list) \<times> 's world" where
  "List_as C dec k ns sel = call_client (CallList k ns sel) (\<lambda>xs. those (map dec xs)) (client_List C k ns sel)"

definition Create_as ::
  "'s client \<Rightarrow> (resource \<Rightarrow> 'a option) \<Rightarrow> resource \<Rightarrow> 's world \<Rightarrow> (client_error + 'a) \<times> 's world" where
  "Create_as C dec r = call_client (CallCreate r) dec (client_Create C r)"

definition Update_as ::
  "'s client \<Rightarrow> (resource \<Rightarrow> 'a option) \<Rightarrow> resource \<Rightarrow> 's world \<Rightarrow> (client_error + 'a) \<times> 's world" where
  "Update_as C dec r = call_client (CallUpdate r) dec (client_Update C r)"

definition StatusUpdate_as ::
  "'s client \<Rightarrow> (resource \<Rightarrow> 'a option) \<Rightarrow> resource \<Rightarrow> 's world \<Rightarrow> (client_error + 'a) \<times> 's world" where
  "StatusUpdate_as C dec r = call_client (CallStatusUpdate r) dec (client_StatusUpdate C r)"

section \<open>Errors of a reconcile\<close>

text \<open>
  \<^verbatim>\<open>fmt.Errorf("...: %w", err)\<close> wraps the error of a client call or of the
  configuration builder; a policy reconcile that collected errors returns them together.
\<close>

datatype cause = FromClient client_error | FromBuild string

datatype wrapped = Wrapped string cause

datatype reconcile_error = Single wrapped | HadErrors "wrapped list"

definition Error_cause :: "cause \<Rightarrow> string" where
  "Error_cause c = (case c of FromClient e \<Rightarrow> Error_text e | FromBuild m \<Rightarrow> m)"

definition Error_wrapped :: "wrapped \<Rightarrow> string" where
  "Error_wrapped e = (case e of Wrapped m c \<Rightarrow> m @ '': '' @ Error_cause c)"

text \<open>The decimal digits of \<^verbatim>\<open>%d\<close>.\<close>

fun Itoa :: "nat \<Rightarrow> string" where
  "Itoa n = (if n < 10 then [''0123456789'' ! n]
             else Itoa (n div 10) @ [''0123456789'' ! (n mod 10)])"

declare Itoa.simps [simp del]

section \<open>Ownership and finalizers\<close>

definition agentCardFinalizer :: string where
  "agentCardFinalizer = ''kagenti.com/agentcard-finalizer''"

definition agentPolicyFinalizer :: string where
  "agentPolicyFinalizer = ''kagenti.com/agentpolicy-finalizer''"

definition IsZero :: "nat option \<Rightarrow> bool" where
  "IsZero t = (case t of None \<Rightarrow> True | Some n \<Rightarrow> n = 0)"

definition ContainsFinalizer :: "ObjectMeta \<Rightarrow> string \<Rightarrow> bool" where
  "ContainsFinalizer m f = (f \<in> set (Finalizers m))"

definition AddFinalizer :: "ObjectMeta \<Rightarrow> string \<Rightarrow> ObjectMeta" where
  "AddFinalizer m f = (if f \<in> set (Finalizers m) then m else m\<lparr>Finalizers := Finalizers m @ [f]\<rparr>)"

definition RemoveFinalizer :: "ObjectMeta \<Rightarrow> string \<Rightarrow> ObjectMeta" where
  "RemoveFinalizer m f = m\<lparr>Finalizers := filter (\<lambda>x. x \<noteq> f) (Finalizers m)\<rparr>"

text \<open>\<^verbatim>\<open>meta.SetStatusCondition\<close>: the condition of the same type is replaced, or the new one added.\<close>

fun SetStatusCondition :: "Condition list \<Rightarrow> Condition \<Rightarrow> Condition list" where
  "SetStatusCondition [] n = [n]"
| "SetStatusCondition (c # cs) n =
     (if cond_Type c = cond_Type n then n # cs else c # SetStatusCondition cs n)"

definition ReadyCondition :: "ConditionStatus \<Rightarrow> string \<Rightarrow> string \<Rightarrow> Condition" where
  "ReadyCondition status reason message =
     \<lparr>cond_Type = ''Ready'', cond_Status = status, cond_Reason = reason, cond_Message = message\<rparr>"

section \<open>Diff/Apply layer\<close>

definition kind_of_unstructured :: "unstructured \<Rightarrow> kind" where
  "kind_of_unstructured u = UnstructuredKind (GetAPIVersion u) (GetKind u)"

text \<open>
  \<^verbatim>\<open>createOrUpdateUnstructured\<close>, the same text in both reconcilers. A successful
  create or update leaves the platform's answer in \<open>desired\<close>, which the function
  gives back with its error.
\<close>

definition createOrUpdateUnstructured ::
  "'s client \<Rightarrow> unstructured \<Rightarrow> 's world \<Rightarrow> client_error option \<times> unstructured \<times> 's world" where
  "createOrUpdateUnstructured C desired w =
     (case Get_as C as_unstructured (kind_of_unstructured desired)
             (GetNamespace desired) (GetName desired) w of
        (Inl err, w1) \<Rightarrow>
          if IsNotFound err
          then (case Create_as C as_unstructured (UnstructuredObject desired) w1 of
                  (Inl e, w2) \<Rightarrow> (Some e, desired, w2)
                | (Inr created, w2) \<Rightarrow> (None, created, w2))
          else (Some err, desired, w1)
      | (Inr existing, w1) \<Rightarrow>
          (let desired' = SetResourceVersion desired (GetResourceVersion existing)
           in case Update_as C as_unstructured (UnstructuredObject desired') w1 of
                (Inl e, w2) \<Rightarrow> (Some e, desired', w2)
              | (Inr updated, w2) \<Rightarrow> (None, updated, w2)))"

definition createOrUpdateConfigMap ::
  "'s client \<Rightarrow> ConfigMap \<Rightarrow> 's world \<Rightarrow> client_error option \<times> ConfigMap \<times> 's world" where
  "createOrUpdateConfigMap C desired w =
     (case Get_as C as_configmap ConfigMapKind
             (Namespace (cm_Meta desired)) (Name (cm_Meta desired)) w of
        (Inl err, w1) \<Rightarrow>
          if IsNotFound err
          then (case Create_as C as_configmap (ConfigMapObject desired) w1 of
                  (Inl e, w2) \<Rightarrow> (Some e, desired, w2)
                | (Inr created, w2) \<Rightarrow> (None, created, w2))
          else (Some err, desired, w1)
      | (Inr existing, w1) \<Rightarrow>
          (let existing' = existing
                 \<lparr>cm_Data := cm_Data desired,
                  cm_Meta := (cm_Meta existing)
                    \<lparr>Labels := Labels (cm_Meta desired),
                     OwnerReferences := OwnerReferences (cm_Meta desired)\<rparr>\<rparr>
           in case Update_as C as_configmap (ConfigMapObject existing') w1 of
                (Inl e, w2) \<Rightarrow> (Some e, desired, w2)
              | (Inr updated, w2) \<Rightarrow> (None, desired, w2)))"

section \<open>Degradation classifier\<close>

definition isCRDNotFound :: "client_error option \<Rightarrow> bool" where
  "isCRDNotFound err =
     (case err of
        None \<Rightarrow> False
      | Some e \<Rightarrow> if IsNoMatchError e then True else IsNotFound e)"

definition isCRDNotFoundPolicy :: "client_error option \<Rightarrow> bool" where
  "isCRDNotFoundPolicy err =
     (case err of
        None \<Rightarrow> False
      | Some e \<Rightarrow> if IsNoMatchError e then True else False)"

section \<open>Reconciliation engine of the identity record\<close>

record Request =
  req_Namespace :: string
  req_Name :: string

fun containsProtocol :: "string list \<Rightarrow> string \<Rightarrow> bool" where
  "containsProtocol [] target = False"
| "containsProtocol (p # protocols) target =
     (if p = target then True else containsProtocol protocols target)"

text \<open>
  \<^verbatim>\<open>setReadyCondition\<close> of the identity reconciler: the condition is set on the
  record and the status is written; a failure of that write is logged and dropped.
\<close>

definition AgentCardReconciler_setReadyCondition ::
  "'s client \<Rightarrow> AgentCard \<Rightarrow> ConditionStatus \<Rightarrow> string \<Rightarrow> string \<Rightarrow> 's world \<Rightarrow> 's world" where
  "AgentCardReconciler_setReadyCondition C acard status reason message w =
     (let acard' = acard\<lparr>card_Status := (card_Status acard)
                     \<lparr>card_Conditions := SetStatusCondition (card_Conditions (card_Status acard))
                                           (ReadyCondition status reason message)\<rparr>\<rparr>
      in snd (StatusUpdate_as C as_card (CardObject acard') w))"

text \<open>Create or update the routing record; the result carries \<open>desired\<close> as the code holds it afterwards.\<close>

definition AgentCardReconciler_applyHTTPRoute ::
  "'s client \<Rightarrow> AgentCard \<Rightarrow> HTTPRoute \<Rightarrow> 's world \<Rightarrow> reconcile_error option \<times> HTTPRoute \<times> 's world" where
  "AgentCardReconciler_applyHTTPRoute C acard desired w =
     (case Get_as C as_route HTTPRouteKind
             (Namespace (route_Meta desired)) (Name (route_Meta desired)) w of
        (Inl err, w1) \<Rightarrow>
          if IsNotFound err
          then (case Create_as C as_route (RouteObject desired) w1 of
                  (Inl e, w2) \<Rightarrow>
                    (Some (Single (Wrapped ''failed to create HTTPRoute'' (FromClient e))), desired,
                     AgentCardReconciler_setReadyCondition C acard ConditionFalse
                       ''HTTPRouteCreateFailed'' (Error_text e) w2)
                | (Inr created, w2) \<Rightarrow> (None, created, w2))
          else (Some (Single (Wrapped ''failed to get HTTPRoute'' (FromClient err))), desired, w1)
      | (Inr existing, w1) \<Rightarrow>
          (let existing' = existing
                 \<lparr>route_Spec := route_Spec desired,
                  route_Meta := (route_Meta existing)
                    \<lparr>Labels := Labels (route_Meta desired),
                     OwnerReferences := OwnerReferences (route_Meta desired)\<rparr>\<rparr>
           in case Update_as C as_route (RouteObject existing') w1 of
                (Inl e, w2) \<Rightarrow>
                  (Some (Single (Wrapped ''failed to update HTTPRoute'' (FromClient e))), desired,
                   AgentCardReconciler_setReadyCondition C acard ConditionFalse
                     ''HTTPRouteUpdateFailed'' (Error_text e) w2)
              | (Inr updated, w2) \<Rightarrow> (None, desired, w2)))"

text \<open>The tool-registration record, when "mcp" is among the protocols, and the final status.\<close>

definition AgentCardReconciler_applyMCP ::
  "'s client \<Rightarrow> AgentCard \<Rightarrow> string \<Rightarrow> 's world \<Rightarrow> reconcile_error option \<times> 's world" where
  "AgentCardReconciler_applyMCP C acard desiredName w =
     (case (if containsProtocol (Protocols (card_Spec acard)) ''mcp''
            then (case createOrUpdateUnstructured C (BuildMCPServerRegistration acard desiredName) w of
                    (Some err, mcpReg, w1) \<Rightarrow>
                      if \<not> isCRDNotFound (Some err) then (Some err, w1) else (None, w1)
                  | (None, mcpReg, w1) \<Rightarrow> (None, w1))
            else (None, w)) of
        (Some err, w1) \<Rightarrow>
          (Some (Single (Wrapped ''failed to create/update MCPServerRegistration'' (FromClient err))),
           AgentCardReconciler_setReadyCondition C acard ConditionFalse
             ''MCPRegistrationFailed'' (Error_text err) w1)
      | (None, w1) \<Rightarrow>
          (None,
           AgentCardReconciler_setReadyCondition C
             (acard\<lparr>card_Status := (card_Status acard)\<lparr>GeneratedHTTPRoute := desiredName\<rparr>\<rparr>)
             ConditionTrue ''Reconciled'' ''AgentCard reconciled successfully'' w1))"

text \<open>The deletion branch and the finalizer, the same steps in both reconcilers.\<close>

definition AgentCardReconciler_handleDeletion ::
  "'s client \<Rightarrow> AgentCard \<Rightarrow> 's world \<Rightarrow> reconcile_error option \<times> 's world" where
  "AgentCardReconciler_handleDeletion C acard w =
     (if ContainsFinalizer (card_Meta acard) agentCardFinalizer
      then (case Update_as C as_card
                   (CardObject (acard\<lparr>card_Meta := RemoveFinalizer (card_Meta acard) agentCardFinalizer\<rparr>)) w of
              (Inl err, w1) \<Rightarrow> (Some (Single (Wrapped ''failed to remove finalizer'' (FromClient err))), w1)
            | (Inr updated, w1) \<Rightarrow> (None, w1))
      else (None, w))"

definition AgentCardReconciler_ensureFinalizer ::
  "'s client \<Rightarrow> AgentCard \<Rightarrow> 's world \<Rightarrow> (reconcile_error + AgentCard) \<times> 's world" where
  "AgentCardReconciler_ensureFinalizer C acard w =
     (if \<not> ContainsFinalizer (card_Meta acard) agentCardFinalizer
      then (case Update_as C as_card
                   (CardObject (acard\<lparr>card_Meta := AddFinalizer (card_Meta acard) agentCardFinalizer\<rparr>)) w of
              (Inl err, w1) \<Rightarrow> (Inl (Single (Wrapped ''failed to add finalizer'' (FromClient err))), w1)
            | (Inr updated, w1) \<Rightarrow> (Inr updated, w1))
      else (Inr acard, w))"

definition AgentCardReconciler_Reconcile ::
  "'s client \<Rightarrow> string \<Rightarrow> string \<Rightarrow> Request \<Rightarrow> 's world \<Rightarrow> reconcile_error option \<times> 's world" where
  "AgentCardReconciler_Reconcile C GatewayName GatewayNamespace req w =
     (case Get_as C as_card AgentCardKind (req_Namespace req) (req_Name req) w of
        (Inl err, w1) \<Rightarrow>
          if IsNotFound err then (None, w1)
          else (Some (Single (Wrapped ''failed to fetch AgentCard'' (FromClient err))), w1)
      | (Inr acard0, w1) \<Rightarrow>
          if \<not> IsZero (DeletionTimestamp (card_Meta acard0))
          then AgentCardReconciler_handleDeletion C acard0 w1
          else (case AgentCardReconciler_ensureFinalizer C acard0 w1 of
                  (Inl e, w2) \<Rightarrow> (Some e, w2)
                | (Inr acard, w2) \<Rightarrow>
                    (case AgentCardReconciler_applyHTTPRoute C acard
                            (BuildHTTPRoute acard GatewayName GatewayNamespace) w2 of
                       (Some e, desired, w3) \<Rightarrow> (Some e, w3)
                     | (None, desired, w3) \<Rightarrow>
                         AgentCardReconciler_applyMCP C acard (Name (route_Meta desired)) w3)))"

section \<open>Reconciliation engine of the policy record\<close>

definition AgentPolicyReconciler_setReadyCondition ::
  "'s client \<Rightarrow> AgentPolicy \<Rightarrow> ConditionStatus \<Rightarrow> string \<Rightarrow> string \<Rightarrow> 's world \<Rightarrow> 's world" where
  "AgentPolicyReconciler_setReadyCondition C policy status reason message w =
     (let policy' = policy\<lparr>policy_Status := (policy_Status policy)
                      \<lparr>policy_Conditions := SetStatusCondition (policy_Conditions (policy_Status policy))
                                              (ReadyCondition status reason message)\<rparr>\<rparr>
      in snd (StatusUpdate_as C as_policy (PolicyObject policy') w))"

text \<open>
  The accumulators of the fan-out: the generated-resource list, the collected errors
  and the world. A step of the first loop also tells whether it left the iteration
  with \<^verbatim>\<open>continue\<close>.
\<close>

type_synonym 's acc = "GeneratedResourceRef list \<times> wrapped list \<times> 's world"

definition applyAuthPolicy ::
  "'s client \<Rightarrow> AgentPolicy \<Rightarrow> AgentCard \<Rightarrow> string \<Rightarrow> 's acc \<Rightarrow> bool \<times> 's acc" where
  "applyAuthPolicy C policy acard httpRouteName acc =
     (case acc of (generatedResources, reconcileErrors, w) \<Rightarrow>
        (case createOrUpdateUnstructured C (BuildAuthPolicy policy acard httpRouteName) w of
           (Some err, authPolicy, w1) \<Rightarrow>
             if isCRDNotFoundPolicy (Some err)
             then (False, (generatedResources, reconcileErrors, w1))
             else (True, (generatedResources,
                          reconcileErrors @
                            [Wrapped (''failed to create/update AuthPolicy for card '' @ Name (card_Meta acard))
                               (FromClient err)],
                          w1))
         | (None, authPolicy, w1) \<Rightarrow>
             (False, (generatedResources @ [\<lparr>ref_Kind = ''AuthPolicy'', ref_Name = GetName authPolicy\<rparr>],
                      reconcileErrors, w1))))"

definition applyRateLimitPolicy ::
  "'s client \<Rightarrow> AgentPolicy \<Rightarrow> AgentCard \<Rightarrow> string \<Rightarrow> 's acc \<Rightarrow> bool \<times> 's acc" where
  "applyRateLimitPolicy C policy acard httpRouteName acc =
     (case acc of (generatedResources, reconcileErrors, w) \<Rightarrow>
        (case createOrUpdateUnstructured C (BuildRateLimitPolicy policy acard httpRouteName) w of
           (Some err, rlp, w1) \<Rightarrow>
             if isCRDNotFoundPolicy (Some err)
             then (False, (generatedResources, reconcileErrors, w1))
             else (True, (generatedResources,
                          reconcileErrors @
                            [Wrapped (''failed to create/update RateLimitPolicy for card '' @ Name (card_Meta acard))
                               (FromClient err)],
                          w1))
         | (None, rlp, w1) \<Rightarrow>
             (False, (generatedResources @ [\<lparr>ref_Kind = ''RateLimitPolicy'', ref_Name = GetName rlp\<rparr>],
                      reconcileErrors, w1))))"

text \<open>The body of the first loop, for one matched identity record.\<close>

definition reconcileCard :: "'s client \<Rightarrow> AgentPolicy \<Rightarrow> AgentCard \<Rightarrow> 's acc \<Rightarrow> 's acc" where
  "reconcileCard C policy acard acc =
     (case acc of (generatedResources, reconcileErrors, w) \<Rightarrow>
        (case List_as C as_route HTTPRouteKind (Namespace (card_Meta acard))
                [(labelAgentCard, Name (card_Meta acard))] w of
           (Inl err, w1) \<Rightarrow>
             (generatedResources,
              reconcileErrors @
                [Wrapped (''failed to list HTTPRoutes for card '' @ Name (card_Meta acard)) (FromClient err)],
              w1)
         | (Inr [], w1) \<Rightarrow> (generatedResources, reconcileErrors, w1)
         | (Inr (route # routes), w1) \<Rightarrow>
             (let httpRouteName = Name (route_Meta route)
              in case (if Ingress (policy_Spec policy) \<noteq> None
                       then applyAuthPolicy C policy acard httpRouteName
                              (generatedResources, reconcileErrors, w1)
                       else (False, (generatedResources, reconcileErrors, w1))) of
                   (True, acc1) \<Rightarrow> acc1
                 | (False, acc1) \<Rightarrow>
                     if RateLimit (policy_Spec policy) \<noteq> None
                     then snd (applyRateLimitPolicy C policy acard httpRouteName acc1)
                     else acc1)))"

fun reconcileCards :: "'s client \<Rightarrow> AgentPolicy \<Rightarrow> AgentCard list \<Rightarrow> 's acc \<Rightarrow> 's acc" where
  "reconcileCards C policy [] acc = acc"
| "reconcileCards C policy (acard # items) acc =
     reconcileCards C policy items (reconcileCard C policy acard acc)"

text \<open>The body of the second loop: the configuration blob of one matched identity record.\<close>

definition reconcileSidecar ::
  "'s client \<Rightarrow> marshal \<Rightarrow> AgentPolicy \<Rightarrow> AgentCard \<Rightarrow> 's acc \<Rightarrow> 's acc" where
  "reconcileSidecar C Marshal policy acard acc =
     (case acc of (generatedResources, reconcileErrors, w) \<Rightarrow>
        (case BuildSidecarConfigMap Marshal policy acard of
           Inl err \<Rightarrow>
             (generatedResources,
              reconcileErrors @
                [Wrapped (''failed to build sidecar ConfigMap for card '' @ Name (card_Meta acard)) (FromBuild err)],
              w)
         | Inr cm0 \<Rightarrow>
             (case createOrUpdateConfigMap C cm0 w of
                (Some err, cm, w1) \<Rightarrow>
                  (generatedResources,
                   reconcileErrors @
                     [Wrapped (''failed to create/update sidecar ConfigMap for card '' @ Name (card_Meta acard))
                        (FromClient err)],
                   w1)
              | (None, cm, w1) \<Rightarrow>
                  (generatedResources @ [\<lparr>ref_Kind = ''ConfigMap'', ref_Name = Name (cm_Meta cm)\<rparr>],
                   reconcileErrors, w1))))"

fun reconcileSidecars ::
  "'s client \<Rightarrow> marshal \<Rightarrow> AgentPolicy \<Rightarrow> AgentCard list \<Rightarrow> 's acc \<Rightarrow> 's acc" where
  "reconcileSidecars C Marshal policy [] acc = acc"
| "reconcileSidecars C Marshal policy (acard # items) acc =
     reconcileSidecars C Marshal policy items (reconcileSidecar C Marshal policy acard acc)"

text \<open>Both loops of the fan-out over the matched identity records.\<close>

definition fanOut ::
  "'s client \<Rightarrow> marshal \<Rightarrow> AgentPolicy \<Rightarrow> AgentCard list \<Rightarrow> 's world \<Rightarrow> 's acc" where
  "fanOut C Marshal policy items w =
     (let acc1 = reconcileCards C policy items ([], [], w)
      in if External (policy_Spec policy) \<noteq> None
         then reconcileSidecars C Marshal policy items acc1
         else acc1)"

definition aggregateMessage :: "wrapped list \<Rightarrow> string" where
  "aggregateMessage reconcileErrors =
     foldl (\<lambda>errMsg e. errMsg @ ''; '' @ Error_wrapped e)
       (''encountered '' @ Itoa (length reconcileErrors) @ '' error(s) during reconciliation'')
       reconcileErrors"

text \<open>The status written at the end of a policy reconcile, and what the reconcile returns.\<close>

definition updateStatus ::
  "'s client \<Rightarrow> AgentPolicy \<Rightarrow> AgentCard list \<Rightarrow> 's acc \<Rightarrow> reconcile_error option \<times> 's world" where
  "updateStatus C policy items acc =
     (case acc of (generatedResources, reconcileErrors, w) \<Rightarrow>
        (let policy' = policy\<lparr>policy_Status := (policy_Status policy)
                          \<lparr>MatchedAgentCards := length items,
                           GeneratedResources := generatedResources\<rparr>\<rparr>
         in if length reconcileErrors > 0
            then (Some (HadErrors reconcileErrors),
                  AgentPolicyReconciler_setReadyCondition C policy' ConditionFalse
                    ''ReconcileErrors'' (aggregateMessage reconcileErrors) w)
            else (None,
                  AgentPolicyReconciler_setReadyCondition C policy' ConditionTrue
                    ''Reconciled'' ''AgentPolicy reconciled successfully'' w)))"

text \<open>The reconcile from the fan-out on, once the matched identity records are listed.\<close>

definition AgentPolicyReconciler_fanOut ::
  "'s client \<Rightarrow> marshal \<Rightarrow> AgentPolicy \<Rightarrow> AgentCard list \<Rightarrow> 's world
     \<Rightarrow> reconcile_error option \<times> 's world" where
  "AgentPolicyReconciler_fanOut C Marshal policy items w =
     updateStatus C policy items (fanOut C Marshal policy items w)"

definition AgentPolicyReconciler_handleDeletion ::
  "'s client \<Rightarrow> AgentPolicy \<Rightarrow> 's world \<Rightarrow> reconcile_error option \<times> 's world" where
  "AgentPolicyReconciler_handleDeletion C policy w =
     (if ContainsFinalizer (policy_Meta policy) agentPolicyFinalizer
      then (case Update_as C as_policy
                   (PolicyObject (policy\<lparr>policy_Meta := RemoveFinalizer (policy_Meta policy) agentPolicyFinalizer\<rparr>)) w of
              (Inl err, w1) \<Rightarrow> (Some (Single (Wrapped ''failed to remove finalizer'' (FromClient err))), w1)
            | (Inr updated, w1) \<Rightarrow> (None, w1))
      else (None, w))"

definition AgentPolicyReconciler_ensureFinalizer ::
  "'s client \<Rightarrow> AgentPolicy \<Rightarrow> 's world \<Rightarrow> (reconcile_error + AgentPolicy) \<times> 's world" where
  "AgentPolicyReconciler_ensureFinalizer C policy w =
     (if \<not> ContainsFinalizer (policy_Meta policy) agentPolicyFinalizer
      then (case Update_as C as_policy
                   (PolicyObject (policy\<lparr>policy_Meta := AddFinalizer (policy_Meta policy) agentPolicyFinalizer\<rparr>)) w of
              (Inl err, w1) \<Rightarrow> (Inl (Single (Wrapped ''failed to add finalizer'' (FromClient err))), w1)
            | (Inr updated, w1) \<Rightarrow> (Inr updated, w1))
      else (Inr policy, w))"

definition AgentPolicyReconciler_Reconcile ::
  "'s client \<Rightarrow> marshal \<Rightarrow> Request \<Rightarrow> 's world \<Rightarrow> reconcile_error option \<times> 's world" where
  "AgentPolicyReconciler_Reconcile C Marshal req w =
     (case Get_as C as_policy AgentPolicyKind (req_Namespace req) (req_Name req) w of
        (Inl err, w1) \<Rightarrow>
          if IsNotFound err then (None, w1)
          else (Some (Single (Wrapped ''failed to fetch AgentPolicy'' (FromClient err))), w1)
      | (Inr policy0, w1) \<Rightarrow>
          if \<not> IsZero (DeletionTimestamp (policy_Meta policy0))
          then AgentPolicyReconciler_handleDeletion C policy0 w1
          else (case AgentPolicyReconciler_ensureFinalizer C policy0 w1 of
                  (Inl e, w2) \<Rightarrow> (Some e, w2)
                | (Inr policy, w2) \<Rightarrow>
                    (case List_as C as_card AgentCardKind (req_Namespace req)
                            (MatchLabels (AgentSelector (policy_Spec policy))) w2 of
                       (Inl err, w3) \<Rightarrow>
                         (Some (Single (Wrapped ''failed to list AgentCards'' (FromClient err))),
                          AgentPolicyReconciler_setReadyCondition C policy ConditionFalse
                            ''ListCardsFailed'' (Error_text err) w3)
                     | (Inr items, w3) \<Rightarrow> AgentPolicyReconciler_fanOut C Marshal policy items w3)))"

section \<open>An in-memory platform\<close>

text \<open>
  A platform to run the reconcilers on, in the way of controller-runtime's fake client:
  a store of objects by kind, namespace and name, a counter for the version tokens, and
  a schedule of injected failures, one entry taken by each call (\<open>None\<close>, or an
  exhausted schedule, lets the call through). An update with a stale version token is
  rejected as a conflict.
\<close>

type_synonym objkey = "kind \<times> string \<times> string"

record memory =
  objects :: "(objkey \<times> resource) list"
  version :: nat
  failures :: "client_error option list"

definition meta_of :: "resource \<Rightarrow> ObjectMeta" where
  "meta_of r =
     (case r of
        CardObject x \<Rightarrow> card_Meta x
      | PolicyObject x \<Rightarrow> policy_Meta x
      | RouteObject x \<Rightarrow> route_Meta x
      | ConfigMapObject x \<Rightarrow> cm_Meta x
      | NetworkPolicyObject x \<Rightarrow> np_Meta x
      | UnstructuredObject u \<Rightarrow>
          (new_ObjectMeta (GetName u) (GetNamespace u)
             (case NestedField u [''metadata'', ''labels''] of
                Some (VMap ls) \<Rightarrow> concat (map (\<lambda>(k, v). case v of VString x \<Rightarrow> [(k, x)] | _ \<Rightarrow> []) ls)
              | _ \<Rightarrow> []))
            \<lparr>ResourceVersion := GetResourceVersion u\<rparr>)"

definition kind_of :: "resource \<Rightarrow> kind" where
  "kind_of r =
     (case r of
        CardObject x \<Rightarrow> AgentCardKind
      | PolicyObject x \<Rightarrow> AgentPolicyKind
      | RouteObject x \<Rightarrow> HTTPRouteKind
      | ConfigMapObject x \<Rightarrow> ConfigMapKind
      | NetworkPolicyObject x \<Rightarrow> NetworkPolicyKind
      | UnstructuredObject u \<Rightarrow> kind_of_unstructured u)"

definition key_of :: "resource \<Rightarrow> objkey" where
  "key_of r = (kind_of r, Namespace (meta_of r), Name (meta_of r))"

definition with_version :: "resource \<Rightarrow> string \<Rightarrow> resource" where
  "with_version r v =
     (case r of
        CardObject x \<Rightarrow> CardObject (x\<lparr>card_Meta := (card_Meta x)\<lparr>ResourceVersion := v\<rparr>\<rparr>)
      | PolicyObject x \<Rightarrow> PolicyObject (x\<lparr>policy_Meta := (policy_Meta x)\<lparr>ResourceVersion := v\<rparr>\<rparr>)
      | RouteObject x \<Rightarrow> RouteObject (x\<lparr>route_Meta := (route_Meta x)\<lparr>ResourceVersion := v\<rparr>\<rparr>)
      | ConfigMapObject x \<Rightarrow> ConfigMapObject (x\<lparr>cm_Meta := (cm_Meta x)\<lparr>ResourceVersion := v\<rparr>\<rparr>)
      | NetworkPolicyObject x \<Rightarrow> NetworkPolicyObject (x\<lparr>np_Meta := (np_Meta x)\<lparr>ResourceVersion := v\<rparr>\<rparr>)
      | UnstructuredObject u \<Rightarrow> UnstructuredObject (SetResourceVersion u v))"

text \<open>A status write keeps what the platform holds and takes the status of the object given.\<close>

definition with_status_of :: "resource \<Rightarrow> resource \<Rightarrow> resource" where
  "with_status_of stored r =
     (case (stored, r) of
        (CardObject s, CardObject x) \<Rightarrow> CardObject (s\<lparr>card_Status := card_Status x\<rparr>)
      | (PolicyObject s, PolicyObject x) \<Rightarrow> PolicyObject (s\<lparr>policy_Status := policy_Status x\<rparr>)
      | _ \<Rightarrow> r)"

definition next_failure :: "memory \<Rightarrow> client_error option \<times> memory" where
  "next_failure m =
     (case failures m of [] \<Rightarrow> (None, m) | f # fs \<Rightarrow> (f, m\<lparr>failures := fs\<rparr>))"

definition selects :: "labels \<Rightarrow> labels \<Rightarrow> bool" where
  "selects sel ls = list_all (\<lambda>(k, v). map_of ls k = Some v) sel"

definition memory_Get :: "kind \<Rightarrow> string \<Rightarrow> string \<Rightarrow> memory \<Rightarrow> (client_error + resource) \<times> memory" where
  "memory_Get k ns n m0 =
     (case next_failure m0 of
        (Some e, m) \<Rightarrow> (Inl e, m)
      | (None, m) \<Rightarrow>
          (case map_of (objects m) (k, ns, n) of
             None \<Rightarrow> (Inl (StatusError ReasonNotFound (n @ '' not found'')), m)
           | Some r \<Rightarrow> (Inr r, m)))"

definition memory_List :: "kind \<Rightarrow> string \<Rightarrow> labels \<Rightarrow> memory \<Rightarrow> (client_error + resource list) \<times> memory" where
  "memory_List k ns sel m0 =
     (case next_failure m0 of
        (Some e, m) \<Rightarrow> (Inl e, m)
      | (None, m) \<Rightarrow>
          (Inr (map snd (filter (\<lambda>(key, r). fst key = k \<and> fst (snd key) = ns \<and> selects sel (Labels (meta_of r)))
                           (objects m))), m))"

definition memory_Create :: "resource \<Rightarrow> memory \<Rightarrow> (client_error + resource) \<times> memory" where
  "memory_Create r m0 =
     (case next_failure m0 of
        (Some e, m) \<Rightarrow> (Inl e, m)
      | (None, m) \<Rightarrow>
          (case map_of (objects m) (key_of r) of
             Some stored \<Rightarrow> (Inl (StatusError ReasonAlreadyExists (Name (meta_of r) @ '' already exists'')), m)
           | None \<Rightarrow>
               (let r' = with_version r (Itoa (Suc (version m)))
                in (Inr r', m\<lparr>objects := objects m @ [(key_of r, r')], version := Suc (version m)\<rparr>))))"

definition memory_write :: "(resource \<Rightarrow> resource \<Rightarrow> resource) \<Rightarrow> resource \<Rightarrow> memory \<Rightarrow> (client_error + resource) \<times> memory" where
  "memory_write merge r m0 =
     (case next_failure m0 of
        (Some e, m) \<Rightarrow> (Inl e, m)
      | (None, m) \<Rightarrow>
          (case map_of (objects m) (key_of r) of
             None \<Rightarrow> (Inl (StatusError ReasonNotFound (Name (meta_of r) @ '' not found'')), m)
           | Some stored \<Rightarrow>
               if ResourceVersion (meta_of r) \<noteq> [] \<and>
                  ResourceVersion (meta_of r) \<noteq> ResourceVersion (meta_of stored)
               then (Inl (StatusError ReasonConflict (Name (meta_of r) @ '' has been modified'')), m)
               else (let r' = with_version (merge stored r) (Itoa (Suc (version m)))
                     in (Inr r', m\<lparr>objects := map_set (key_of r) r' (objects m),
                                   version := Suc (version m)\<rparr>))))"

definition memory_Delete :: "resource \<Rightarrow> memory \<Rightarrow> (client_error + resource) \<times> memory" where
  "memory_Delete r m0 =
     (case next_failure m0 of
        (Some e, m) \<Rightarrow> (Inl e, m)
      | (None, m) \<Rightarrow>
          (case map_of (objects m) (key_of r) of
             None \<Rightarrow> (Inl (StatusError ReasonNotFound (Name (meta_of r) @ '' not found'')), m)
           | Some stored \<Rightarrow>
               (Inr stored, m\<lparr>objects := filter (\<lambda>(key, x). key \<noteq> key_of r) (objects m)\<rparr>)))"

definition memory_client :: "memory client" where
  "memory_client =
     \<lparr>client_Get = memory_Get,
      client_List = memory_List,
      client_Create = memory_Create,
      client_Update = memory_write (\<lambda>stored r. r),
      client_StatusUpdate = memory_write with_status_of,
      client_Delete = memory_Delete\<rparr>"

definition new_world :: "resource list \<Rightarrow> client_error option list \<Rightarrow> memory world" where
  "new_world rs fs =
     \<lparr>platform = \<lparr>objects = map (\<lambda>r. (key_of r, r)) rs, version = 0, failures = fs\<rparr>, trace = []\<rparr>"

subsection \<open>Sample records\<close>

text \<open>The records of the repository's tests (\<^verbatim>\<open>testAgentCard\<close>, \<^verbatim>\<open>testAgentPolicy\<close>).\<close>

definition testAgentCard :: "string \<Rightarrow> string \<Rightarrow> AgentCard" where
  "testAgentCard n ns =
     \<lparr>card_Meta = (new_ObjectMeta n ns [(''tier'', ''premium'')])\<lparr>UID := ''test-uid-card''\<rparr>,
      card_Spec = \<lparr>Description = ''Test agent'',
                   Skills = [\<lparr>skill_Name = ''search'', skill_Description = ''Search the web''\<rparr>],
                   Protocols = [''a2a'', ''mcp''],
                   ServicePort = 9090\<rparr>,
      card_Status = \<lparr>card_Conditions = [], GeneratedHTTPRoute = []\<rparr>\<rparr>"

definition testAgentPolicy :: "string \<Rightarrow> string \<Rightarrow> AgentPolicy" where
  "testAgentPolicy n ns =
     \<lparr>policy_Meta = (new_ObjectMeta n ns [])\<lparr>UID := ''test-uid-policy''\<rparr>,
      policy_Spec =
        \<lparr>AgentSelector = \<lparr>MatchLabels = [(''tier'', ''premium'')]\<rparr>,
         Ingress = Some \<lparr>AllowedAgents = [''agent-a'', ''agent-b''], AllowedUsers = []\<rparr>,
         Agents = [''weather-agent''],
         External = Some
           \<lparr>DefaultMode = ''deny'',
            ext_Rules = [\<lparr>Host = ''api.example.com'', Mode = ''vault'',
                          VaultPath = ''secret/data/api-key'', Audience = [], Scopes = [],
                          Header = ''Authorization'', HeaderPrefix = ''Bearer ''\<rparr>]\<rparr>,
         RateLimit = Some \<lparr>RequestsPerMinute = 100\<rparr>\<rparr>,
      policy_Status = \<lparr>MatchedAgentCards = 0, GeneratedResources = [], policy_Conditions = []\<rparr>\<rparr>"

text \<open>An encoder that writes the gateway host of a document and never fails.\<close>

definition testMarshal :: marshal where
  "testMarshal cfg = Inr (''gateway: '' @ gw_Host (cfg_Gateway cfg))"


section \<open>Observing a reconcile\<close>

text \<open>
  What the theorems below say about a reconcile is said about its trace: the calls it
  issued and the failures among them.
\<close>

definition calls :: "'s world \<Rightarrow> call list" where
  "calls w = map fst (trace w)"

definition calls_where :: "(call \<Rightarrow> bool) \<Rightarrow> 's world \<Rightarrow> call list" where
  "calls_where P w = filter P (map fst (trace w))"

definition call_kind :: "call \<Rightarrow> kind" where
  "call_kind c =
     (case c of
        CallGet k ns n \<Rightarrow> k
      | CallList k ns sel \<Rightarrow> k
      | CallCreate r \<Rightarrow> kind_of r
      | CallUpdate r \<Rightarrow> kind_of r
      | CallStatusUpdate r \<Rightarrow> kind_of r
      | CallDelete r \<Rightarrow> kind_of r)"

definition is_write :: "call \<Rightarrow> bool" where
  "is_write c = (case c of CallGet k ns n \<Rightarrow> False | CallList k ns sel \<Rightarrow> False | _ \<Rightarrow> True)"

definition is_Delete :: "call \<Rightarrow> bool" where
  "is_Delete c = (case c of CallDelete r \<Rightarrow> True | _ \<Rightarrow> False)"

text \<open>A NetworkPolicy, as a typed object or as a schema-less one of that kind.\<close>

definition is_NetworkPolicy_kind :: "kind \<Rightarrow> bool" where
  "is_NetworkPolicy_kind k =
     (case k of NetworkPolicyKind \<Rightarrow> True | UnstructuredKind v kd \<Rightarrow> kd = ''NetworkPolicy'' | _ \<Rightarrow> False)"

definition touches_NetworkPolicy :: "call \<Rightarrow> bool" where
  "touches_NetworkPolicy c = is_NetworkPolicy_kind (call_kind c)"

text \<open>A call is foreign to the engines when it deletes a record or concerns a NetworkPolicy.\<close>

definition foreign_call :: "call \<Rightarrow> bool" where
  "foreign_call c = (is_Delete c \<or> is_NetworkPolicy_kind (call_kind c))"

text \<open>
  The first call of each iteration of the fan-out: the lookup of the routing record in
  the first loop, the lookup of the configuration record in the second.
\<close>

definition is_lookup :: "call \<Rightarrow> bool" where
  "is_lookup c =
     (case c of
        CallList k ns sel \<Rightarrow> k = HTTPRouteKind
      | CallGet k ns n \<Rightarrow> k = ConfigMapKind
      | _ \<Rightarrow> False)"

definition routeLookup :: "AgentCard \<Rightarrow> call" where
  "routeLookup c = CallList HTTPRouteKind (Namespace (card_Meta c)) [(labelAgentCard, Name (card_Meta c))]"

definition configMapLookup :: "AgentCard \<Rightarrow> call" where
  "configMapLookup c = CallGet ConfigMapKind (Namespace (card_Meta c)) (''sidecar-config-'' @ Name (card_Meta c))"

text \<open>The lookup of create-or-update is answered: the record is there, or the answer is NotFound.\<close>

definition lookup_answers :: "'s client \<Rightarrow> unstructured \<Rightarrow> 's world \<Rightarrow> bool" where
  "lookup_answers C desired w =
     (case fst (Get_as C as_unstructured (kind_of_unstructured desired)
                  (GetNamespace desired) (GetName desired) w) of
        Inl err \<Rightarrow> IsNotFound err
      | Inr existing \<Rightarrow> True)"

text \<open>
  A failed call is a genuine failure unless it is a lookup answered with NotFound (the
  record is then created), a call on a schema-less record answered with a missing type,
  or a status write.
\<close>

definition is_unstructured_kind :: "kind \<Rightarrow> bool" where
  "is_unstructured_kind k = (case k of UnstructuredKind v kd \<Rightarrow> True | _ \<Rightarrow> False)"

fun real_failure :: "call \<times> client_error option \<Rightarrow> bool" where
  "real_failure (c, None) = False"
| "real_failure (CallGet k ns n, Some e) =
     (\<not> IsNotFound e \<and> \<not> (is_unstructured_kind k \<and> IsNoMatchError e))"
| "real_failure (CallList k ns sel, Some e) = True"
| "real_failure (CallCreate r, Some e) = (\<not> (is_unstructured_kind (kind_of r) \<and> IsNoMatchError e))"
| "real_failure (CallUpdate r, Some e) = (\<not> (is_unstructured_kind (kind_of r) \<and> IsNoMatchError e))"
| "real_failure (CallStatusUpdate r, Some e) = False"
| "real_failure (CallDelete r, Some e) = True"

definition failures :: "'s world \<Rightarrow> nat" where
  "failures w = length (filter real_failure (trace w))"

definition build_fails :: "marshal \<Rightarrow> AgentPolicy \<Rightarrow> AgentCard \<Rightarrow> bool" where
  "build_fails M p c = isl (BuildSidecarConfigMap M p c)"

text \<open>The collected errors of the accumulators less the genuine failures of their trace.\<close>

definition balance :: "'s acc \<Rightarrow> int" where
  "balance acc = int (length (fst (snd acc))) - int (failures (snd (snd acc)))"







text \<open>The writes of records (not of a status), and a lookup that is answered.\<close>

definition is_record_write :: "call \<Rightarrow> bool" where
  "is_record_write c =
     (case c of CallCreate r \<Rightarrow> True | CallUpdate r \<Rightarrow> True | CallDelete r \<Rightarrow> True | _ \<Rightarrow> False)"

definition answered :: "client_error + 'a \<Rightarrow> bool" where
  "answered r = (case r of Inl err \<Rightarrow> IsNotFound err | Inr existing \<Rightarrow> True)"

text \<open>Parts of the schema-less records.\<close>

definition authPredicates :: "unstructured \<Rightarrow> uval option" where
  "authPredicates u =
     NestedField u [''spec'', ''rules'', ''authorization'', ''agent-access'', ''patternMatching'', ''patterns'']"

definition rateRules :: "unstructured \<Rightarrow> uval option" where
  "rateRules u = NestedField u [''spec'', ''limits'', ''agent-rate-limit'', ''rates'']"

definition ownerReferencesOf :: "unstructured \<Rightarrow> uval option" where
  "ownerReferencesOf u = NestedField u [''metadata'', ''ownerReferences'']"

section \<open>Sample runs\<close>

definition sampleCard :: AgentCard where
  "sampleCard = testAgentCard ''weather'' ''default''"

definition samplePolicy :: AgentPolicy where
  "samplePolicy = testAgentPolicy ''premium-policy'' ''default''"

definition cardA :: AgentCard where
  "cardA = testAgentCard ''a'' ''default''"

definition cardB :: AgentCard where
  "cardB = testAgentCard ''b'' ''default''"

definition defaultPortCard :: AgentCard where
  "defaultPortCard = sampleCard\<lparr>card_Spec := (card_Spec sampleCard)\<lparr>ServicePort := 0\<rparr>\<rparr>"

definition callerPolicy :: AgentPolicy where
  "callerPolicy = samplePolicy\<lparr>policy_Spec := (policy_Spec samplePolicy)
      \<lparr>Ingress := Some \<lparr>AllowedAgents = [''orchestrator'', ''other-ns/planner''], AllowedUsers = []\<rparr>\<rparr>\<rparr>"

definition noCallerPolicy :: AgentPolicy where
  "noCallerPolicy = samplePolicy\<lparr>policy_Spec := (policy_Spec samplePolicy)
      \<lparr>Ingress := Some \<lparr>AllowedAgents = [], AllowedUsers = []\<rparr>\<rparr>\<rparr>"

definition noRatePolicy :: AgentPolicy where
  "noRatePolicy = samplePolicy\<lparr>policy_Spec := (policy_Spec samplePolicy)\<lparr>RateLimit := None\<rparr>\<rparr>"

text \<open>The sample identity record as its own reconcile leaves it.\<close>

definition reconciledCard :: AgentCard where
  "reconciledCard = sampleCard
     \<lparr>card_Meta := (card_Meta sampleCard)\<lparr>ResourceVersion := ''4'', Finalizers := [agentCardFinalizer]\<rparr>,
      card_Status := \<lparr>card_Conditions = [ReadyCondition ConditionTrue ''Reconciled'' ''AgentCard reconciled successfully''],
                      GeneratedHTTPRoute = ''agent-weather''\<rparr>\<rparr>"

definition sampleAuthPolicy :: unstructured where
  "sampleAuthPolicy = BuildAuthPolicy samplePolicy sampleCard ''agent-weather''"

definition sampleRequest :: "string \<Rightarrow> Request" where
  "sampleRequest n = \<lparr>req_Namespace = ''default'', req_Name = n\<rparr>"

definition notFoundError :: client_error where
  "notFoundError = StatusError ReasonNotFound ''the server could not find the requested resource''"


text \<open>The sample auth record applied twice to an empty platform.\<close>

definition firstApply :: "memory world" where
  "firstApply = snd (snd (createOrUpdateUnstructured memory_client sampleAuthPolicy (new_world [] [])))"

definition secondApply :: "memory world" where
  "secondApply = snd (snd (createOrUpdateUnstructured memory_client sampleAuthPolicy firstApply))"

text \<open>The sample configuration blob and the sample routing record, each applied twice.\<close>

definition sampleConfigMap :: ConfigMap where
  "sampleConfigMap = projr (BuildSidecarConfigMap testMarshal samplePolicy sampleCard)"

definition configMapFirstApply :: "memory world" where
  "configMapFirstApply = snd (snd (createOrUpdateConfigMap memory_client sampleConfigMap (new_world [] [])))"

definition configMapSecondApply :: "memory world" where
  "configMapSecondApply = snd (snd (createOrUpdateConfigMap memory_client sampleConfigMap configMapFirstApply))"

definition sampleRoute :: HTTPRoute where
  "sampleRoute = BuildHTTPRoute sampleCard ''gw'' ''gw-ns''"

definition routeFirstApply :: "memory world" where
  "routeFirstApply =
     snd (snd (AgentCardReconciler_applyHTTPRoute memory_client sampleCard sampleRoute (new_world [] [])))"

definition routeSecondApply :: "memory world" where
  "routeSecondApply =
     snd (snd (AgentCardReconciler_applyHTTPRoute memory_client sampleCard sampleRoute routeFirstApply))"

text \<open>An identity record and a policy record, reconciled one after the other.\<close>

definition world0 :: "memory world" where
  "world0 = new_world [CardObject sampleCard, PolicyObject samplePolicy] []"

definition world1 :: "memory world" where
  "world1 = snd (AgentCardReconciler_Reconcile memory_client ''gw'' ''gw-ns'' (sampleRequest ''weather'') world0)"

definition world2 :: "memory world" where
  "world2 = snd (AgentPolicyReconciler_Reconcile memory_client testMarshal (sampleRequest ''premium-policy'') world1)"


text \<open>An identity record and a policy record that are being deleted, the routing record still stored.\<close>

definition deletingCard :: AgentCard where
  "deletingCard = sampleCard\<lparr>card_Meta := (card_Meta sampleCard)
                     \<lparr>Finalizers := [agentCardFinalizer], DeletionTimestamp := Some 1\<rparr>\<rparr>"

definition deletingPolicy :: AgentPolicy where
  "deletingPolicy = samplePolicy\<lparr>policy_Meta := (policy_Meta samplePolicy)
                     \<lparr>Finalizers := [agentPolicyFinalizer], DeletionTimestamp := Some 1\<rparr>\<rparr>"

definition deletionWorld :: "memory world" where
  "deletionWorld = new_world [CardObject deletingCard, PolicyObject deletingPolicy,
                              RouteObject (BuildHTTPRoute deletingCard ''gw'' ''gw-ns'')] []"

text \<open>
  The routing record of the sample identity record is stored; the second and the third
  call fail with NotFound.
\<close>

definition degradedWorld :: "memory world" where
  "degradedWorld = new_world [RouteObject (BuildHTTPRoute sampleCard ''gw'' ''gw-ns'')]
                     [None, Some notFoundError, Some notFoundError]"

section \<open>Properties of the trace\<close>

lemma call_client_trace:
  "trace (snd (call_client c dec f w)) = trace w @ [(c, err_of (fst (call_client c dec f w)))]"
  by (simp add: call_client_def split_beta)

lemma calls_where_call_client:
  "calls_where P (snd (call_client c dec f w)) = calls_where P w @ (if P c then [c] else [])"
  by (simp add: calls_where_def call_client_trace)

lemma map_of_map_set: "map_of (map_set k v m) k' = (if k' = k then Some v else map_of m k')"
  by (induction m) auto

lemma GetKind_SetResourceVersion [simp]: "GetKind (SetResourceVersion u rv) = GetKind u"
  by (auto simp: GetKind_def SetResourceVersion_def NestedString_def map_of_map_set
           split: option.splits uval.splits)

lemma GetAPIVersion_SetResourceVersion [simp]: "GetAPIVersion (SetResourceVersion u rv) = GetAPIVersion u"
  by (auto simp: GetAPIVersion_def SetResourceVersion_def NestedString_def map_of_map_set
           split: option.splits uval.splits)

lemma foreign_simps [simp]:
  "foreign_call (CallGet k ns n) = is_NetworkPolicy_kind k"
  "foreign_call (CallList k ns sel) = is_NetworkPolicy_kind k"
  "foreign_call (CallCreate r) = is_NetworkPolicy_kind (kind_of r)"
  "foreign_call (CallUpdate r) = is_NetworkPolicy_kind (kind_of r)"
  "foreign_call (CallStatusUpdate r) = is_NetworkPolicy_kind (kind_of r)"
  "foreign_call (CallDelete r) = True"
  by (simp_all add: foreign_call_def is_Delete_def call_kind_def)

lemma kind_simps [simp]:
  "\<not> is_NetworkPolicy_kind AgentCardKind"
  "\<not> is_NetworkPolicy_kind AgentPolicyKind"
  "\<not> is_NetworkPolicy_kind HTTPRouteKind"
  "\<not> is_NetworkPolicy_kind ConfigMapKind"
  "is_NetworkPolicy_kind (kind_of_unstructured u) = (GetKind u = ''NetworkPolicy'')"
  "kind_of (CardObject c) = AgentCardKind"
  "kind_of (PolicyObject p) = AgentPolicyKind"
  "kind_of (RouteObject r) = HTTPRouteKind"
  "kind_of (ConfigMapObject m) = ConfigMapKind"
  "kind_of (UnstructuredObject u) = kind_of_unstructured u"
  by (simp_all add: is_NetworkPolicy_kind_def kind_of_def kind_of_unstructured_def)

lemmas op_defs = Get_as_def List_as_def Create_as_def Update_as_def StatusUpdate_as_def

lemma foreign_ops [simp]:
  "calls_where foreign_call (snd (Get_as C dec k ns n w)) = calls_where foreign_call w @ (if is_NetworkPolicy_kind k then [CallGet k ns n] else [])"
  "calls_where foreign_call (snd (List_as C dec k ns sel w)) = calls_where foreign_call w @ (if is_NetworkPolicy_kind k then [CallList k ns sel] else [])"
  "calls_where foreign_call (snd (Create_as C dec r w)) = calls_where foreign_call w @ (if is_NetworkPolicy_kind (kind_of r) then [CallCreate r] else [])"
  "calls_where foreign_call (snd (Update_as C dec r w)) = calls_where foreign_call w @ (if is_NetworkPolicy_kind (kind_of r) then [CallUpdate r] else [])"
  "calls_where foreign_call (snd (StatusUpdate_as C dec r w)) = calls_where foreign_call w @ (if is_NetworkPolicy_kind (kind_of r) then [CallStatusUpdate r] else [])"
  by (simp_all add: op_defs calls_where_call_client)

lemma foreign_cou:
  "GetKind d \<noteq> ''NetworkPolicy'' \<Longrightarrow>
   calls_where foreign_call (snd (snd (createOrUpdateUnstructured C d w))) = calls_where foreign_call w"
  by (simp add: createOrUpdateUnstructured_def split_beta Let_def split: sum.split option.split)

lemma foreign_coucm:
  "calls_where foreign_call (snd (snd (createOrUpdateConfigMap C d w))) = calls_where foreign_call w"
  by (simp add: createOrUpdateConfigMap_def split_beta Let_def split: sum.split option.split)

lemma Build_kinds [simp]:
  "GetKind (BuildAuthPolicy p c r) = ''AuthPolicy''"
  "GetKind (BuildRateLimitPolicy p c r) = ''RateLimitPolicy''"
  "GetKind (BuildMCPServerRegistration c r) = ''MCPServerRegistration''"
  by (simp_all add: GetKind_def NestedString_def BuildAuthPolicy_def BuildRateLimitPolicy_def
        BuildMCPServerRegistration_def setUnstructuredOwnerRef_def Let_def)

lemma foreign_card_setReady [simp]:
  "calls_where foreign_call (AgentCardReconciler_setReadyCondition C c s r m w) = calls_where foreign_call w"
  by (simp add: AgentCardReconciler_setReadyCondition_def Let_def)

lemma foreign_policy_setReady [simp]:
  "calls_where foreign_call (AgentPolicyReconciler_setReadyCondition C c s r m w) = calls_where foreign_call w"
  by (simp add: AgentPolicyReconciler_setReadyCondition_def Let_def)

lemma foreign_applyHTTPRoute [simp]:
  "calls_where foreign_call (snd (snd (AgentCardReconciler_applyHTTPRoute C c d w))) = calls_where foreign_call w"
  by (simp add: AgentCardReconciler_applyHTTPRoute_def split_beta Let_def split: sum.split option.split)

lemma foreign_applyMCP [simp]:
  "calls_where foreign_call (snd (AgentCardReconciler_applyMCP C c n w)) = calls_where foreign_call w"
  by (simp add: AgentCardReconciler_applyMCP_def split_beta Let_def foreign_cou split: sum.split option.split)

lemma foreign_card_handleDeletion [simp]:
  "calls_where foreign_call (snd (AgentCardReconciler_handleDeletion C c w)) = calls_where foreign_call w"
  by (simp add: AgentCardReconciler_handleDeletion_def split_beta split: sum.split)

lemma foreign_card_ensureFinalizer [simp]:
  "calls_where foreign_call (snd (AgentCardReconciler_ensureFinalizer C c w)) = calls_where foreign_call w"
  by (simp add: AgentCardReconciler_ensureFinalizer_def split_beta split: sum.split)

lemma foreign_card_Reconcile:
  "calls_where foreign_call (snd (AgentCardReconciler_Reconcile C g gn req w)) = calls_where foreign_call w"
  by (simp add: AgentCardReconciler_Reconcile_def split_beta split: sum.split option.split)

lemma foreign_applyAuth [simp]:
  "calls_where foreign_call (snd (snd (snd (applyAuthPolicy C p c n acc)))) = calls_where foreign_call (snd (snd acc))"
  by (simp add: applyAuthPolicy_def split_beta foreign_cou split: option.split)

lemma foreign_applyRate [simp]:
  "calls_where foreign_call (snd (snd (snd (applyRateLimitPolicy C p c n acc)))) = calls_where foreign_call (snd (snd acc))"
  by (simp add: applyRateLimitPolicy_def split_beta foreign_cou split: option.split)

lemma foreign_reconcileCard [simp]:
  "calls_where foreign_call (snd (snd (reconcileCard C p c acc))) = calls_where foreign_call (snd (snd acc))"
  by (simp add: reconcileCard_def split_beta Let_def split: sum.split list.split bool.split)

lemma foreign_reconcileCards [simp]:
  "calls_where foreign_call (snd (snd (reconcileCards C p cs acc))) = calls_where foreign_call (snd (snd acc))"
  by (induction cs arbitrary: acc) simp_all

lemma foreign_reconcileSidecar [simp]:
  "calls_where foreign_call (snd (snd (reconcileSidecar C M p c acc))) = calls_where foreign_call (snd (snd acc))"
  by (simp add: reconcileSidecar_def split_beta foreign_coucm split: sum.split option.split)

lemma foreign_reconcileSidecars [simp]:
  "calls_where foreign_call (snd (snd (reconcileSidecars C M p cs acc))) = calls_where foreign_call (snd (snd acc))"
  by (induction cs arbitrary: acc) simp_all

lemma foreign_fanOut [simp]:
  "calls_where foreign_call (snd (snd (fanOut C M p cs w))) = calls_where foreign_call w"
  by (simp add: fanOut_def Let_def)

lemma foreign_updateStatus [simp]:
  "calls_where foreign_call (snd (updateStatus C p cs acc)) = calls_where foreign_call (snd (snd acc))"
  by (simp add: updateStatus_def split_beta Let_def)

lemma foreign_policy_handleDeletion [simp]:
  "calls_where foreign_call (snd (AgentPolicyReconciler_handleDeletion C c w)) = calls_where foreign_call w"
  by (simp add: AgentPolicyReconciler_handleDeletion_def split_beta split: sum.split)

lemma foreign_policy_ensureFinalizer [simp]:
  "calls_where foreign_call (snd (AgentPolicyReconciler_ensureFinalizer C c w)) = calls_where foreign_call w"
  by (simp add: AgentPolicyReconciler_ensureFinalizer_def split_beta split: sum.split)

lemma foreign_policy_Reconcile:
  "calls_where foreign_call (snd (AgentPolicyReconciler_Reconcile C M req w)) = calls_where foreign_call w"
  by (simp add: AgentPolicyReconciler_Reconcile_def AgentPolicyReconciler_fanOut_def split_beta split: sum.split option.split)

lemma balance_tuple [simp]: "balance (g, e, w) = int (length e) - int (failures w)"
  by (simp add: balance_def)

lemma failures_call_client:
  "failures (snd (call_client c dec f w)) =
     failures w + (if real_failure (c, err_of (fst (call_client c dec f w))) then 1 else 0)"
  by (simp add: failures_def call_client_trace)

lemma calls_call_client: "calls (snd (call_client c dec f w)) = calls w @ [c]"
  by (simp add: calls_def call_client_trace)

lemma err_of_simps [simp]: "err_of (Inl e) = Some e" "err_of (Inr x) = None"
  by (simp_all add: err_of_def)

lemma isCRD_simps [simp]:
  "isCRDNotFoundPolicy (Some e) = IsNoMatchError e"
  "isCRDNotFound (Some e) = (IsNoMatchError e \<or> IsNotFound e)"
  "\<not> isCRDNotFoundPolicy None" "\<not> isCRDNotFound None"
  by (simp_all add: isCRDNotFoundPolicy_def isCRDNotFound_def)

lemma unstructured_kind [simp]: "is_unstructured_kind (kind_of_unstructured u)"
  "\<not> is_unstructured_kind ConfigMapKind"
  by (simp_all add: is_unstructured_kind_def kind_of_unstructured_def)

lemma real_failure_status [simp]: "\<not> real_failure (CallStatusUpdate r, x)"
  by (cases x) simp_all

lemma failures_ops:
  "failures (snd (Get_as C dec k ns n w)) =
     failures w + (case fst (Get_as C dec k ns n w) of
                     Inl e \<Rightarrow> if real_failure (CallGet k ns n, Some e) then 1 else 0 | Inr x \<Rightarrow> 0)"
  "failures (snd (List_as C dec k ns sel w)) =
     failures w + (case fst (List_as C dec k ns sel w) of Inl e \<Rightarrow> 1 | Inr x \<Rightarrow> 0)"
  "failures (snd (Create_as C dec r w)) =
     failures w + (case fst (Create_as C dec r w) of
                     Inl e \<Rightarrow> if real_failure (CallCreate r, Some e) then 1 else 0 | Inr x \<Rightarrow> 0)"
  "failures (snd (Update_as C dec r w)) =
     failures w + (case fst (Update_as C dec r w) of
                     Inl e \<Rightarrow> if real_failure (CallUpdate r, Some e) then 1 else 0 | Inr x \<Rightarrow> 0)"
  "failures (snd (StatusUpdate_as C dec r w)) = failures w"
  by (simp_all add: op_defs failures_call_client split: sum.split)

lemma failures_cou:
  "failures (snd (snd (createOrUpdateUnstructured C d w))) =
     failures w + (case fst (createOrUpdateUnstructured C d w) of
                     None \<Rightarrow> 0 | Some e \<Rightarrow> if IsNoMatchError e then 0 else 1)"
  by (simp add: createOrUpdateUnstructured_def failures_ops split_beta Let_def
           split: sum.split option.split)

lemma failures_coucm:
  "failures (snd (snd (createOrUpdateConfigMap C d w))) =
     failures w + (case fst (createOrUpdateConfigMap C d w) of None \<Rightarrow> 0 | Some e \<Rightarrow> 1)"
  by (simp add: createOrUpdateConfigMap_def failures_ops split_beta Let_def
           split: sum.split option.split)

lemma balance_applyAuth [simp]:
  "balance (snd (applyAuthPolicy C p c n acc)) = balance acc"
  by (simp add: applyAuthPolicy_def split_beta failures_cou balance_def split: option.split)

lemma balance_applyRate [simp]:
  "balance (snd (applyRateLimitPolicy C p c n acc)) = balance acc"
  by (simp add: applyRateLimitPolicy_def split_beta failures_cou balance_def split: option.split)

lemma balance_reconcileCard [simp]:
  "balance (reconcileCard C p c acc) = balance acc"
  by (cases acc) (simp add: reconcileCard_def split_beta Let_def failures_ops
           split: sum.split list.split bool.split)

lemma balance_reconcileCards [simp]:
  "balance (reconcileCards C p cs acc) = balance acc"
  by (induction cs arbitrary: acc) simp_all

lemma balance_reconcileSidecar [simp]:
  "balance (reconcileSidecar C M p c acc) = balance acc + (if build_fails M p c then 1 else 0)"
  by (cases acc) (simp add: reconcileSidecar_def build_fails_def split_beta failures_coucm
           split: sum.split option.split)

lemma balance_reconcileSidecars [simp]:
  "balance (reconcileSidecars C M p cs acc) = balance acc + int (length (filter (build_fails M p) cs))"
  by (induction cs arbitrary: acc) simp_all

lemma balance_fanOut:
  "balance (fanOut C M p cs w) =
     (if External (policy_Spec p) \<noteq> None then int (length (filter (build_fails M p) cs)) else 0) - int (failures w)"
  by (simp add: fanOut_def Let_def)

lemma lookup_simps [simp]:
  "is_lookup (CallList k ns sel) = (k = HTTPRouteKind)"
  "is_lookup (CallGet k ns n) = (k = ConfigMapKind)"
  "\<not> is_lookup (CallCreate r)" "\<not> is_lookup (CallUpdate r)" "\<not> is_lookup (CallStatusUpdate r)"
  by (simp_all add: is_lookup_def)

lemma kind_of_unstructured_neq [simp]: "kind_of_unstructured u \<noteq> ConfigMapKind"
  by (simp add: kind_of_unstructured_def)

lemma lookups_cou [simp]:
  "calls_where is_lookup (snd (snd (createOrUpdateUnstructured C d w))) = calls_where is_lookup w"
  by (simp add: createOrUpdateUnstructured_def op_defs calls_where_call_client split_beta Let_def
           split: sum.split option.split)

lemma lookups_coucm [simp]:
  "calls_where is_lookup (snd (snd (createOrUpdateConfigMap C d w))) =
     calls_where is_lookup w @ [CallGet ConfigMapKind (Namespace (cm_Meta d)) (Name (cm_Meta d))]"
  by (simp add: createOrUpdateConfigMap_def op_defs calls_where_call_client split_beta Let_def
           split: sum.split option.split)

lemma lookups_applyAuth [simp]:
  "calls_where is_lookup (snd (snd (snd (applyAuthPolicy C p c n acc)))) = calls_where is_lookup (snd (snd acc))"
  by (simp add: applyAuthPolicy_def split_beta split: option.split)

lemma lookups_applyRate [simp]:
  "calls_where is_lookup (snd (snd (snd (applyRateLimitPolicy C p c n acc)))) = calls_where is_lookup (snd (snd acc))"
  by (simp add: applyRateLimitPolicy_def split_beta split: option.split)

lemma lookups_reconcileCard [simp]:
  "calls_where is_lookup (snd (snd (reconcileCard C p c acc))) =
     calls_where is_lookup (snd (snd acc)) @ [routeLookup c]"
  by (simp add: reconcileCard_def routeLookup_def split_beta Let_def op_defs calls_where_call_client
           split: sum.split list.split bool.split)

lemma lookups_reconcileCards [simp]:
  "calls_where is_lookup (snd (snd (reconcileCards C p cs acc))) =
     calls_where is_lookup (snd (snd acc)) @ map routeLookup cs"
  by (induction cs arbitrary: acc) simp_all

lemma lookups_reconcileSidecar [simp]:
  "calls_where is_lookup (snd (snd (reconcileSidecar C M p c acc))) =
     calls_where is_lookup (snd (snd acc)) @ (if build_fails M p c then [] else [configMapLookup c])"
  by (auto simp add: reconcileSidecar_def build_fails_def configMapLookup_def split_beta 
        BuildSidecarConfigMap_def setOwnerRef_def new_ObjectMeta_def
           split: sum.split option.split)

lemma lookups_reconcileSidecars [simp]:
  "calls_where is_lookup (snd (snd (reconcileSidecars C M p cs acc))) =
     calls_where is_lookup (snd (snd acc)) @ map configMapLookup (filter (\<lambda>c. \<not> build_fails M p c) cs)"
  by (induction cs arbitrary: acc) simp_all


lemma updateStatus_result:
  "fst (updateStatus C p cs (g, e, w)) = (if e = [] then None else Some (HadErrors e))"
  by (simp add: updateStatus_def Let_def)


lemma calls_ops [simp]:
  "calls (snd (Get_as C dec k ns n w)) = calls w @ [CallGet k ns n]"
  "calls (snd (List_as C dec k ns sel w)) = calls w @ [CallList k ns sel]"
  "calls (snd (Create_as C dec r w)) = calls w @ [CallCreate r]"
  "calls (snd (Update_as C dec r w)) = calls w @ [CallUpdate r]"
  "calls (snd (StatusUpdate_as C dec r w)) = calls w @ [CallStatusUpdate r]"
  by (simp_all add: op_defs calls_call_client)

lemma calls_where_calls: "calls_where P w = filter P (calls w)"
  by (simp add: calls_where_def calls_def)

lemma cou_calls:
  "calls (snd (snd (createOrUpdateUnstructured C desired w))) =
     calls w @ CallGet (kind_of_unstructured desired) (GetNamespace desired) (GetName desired) #
       (case fst (Get_as C as_unstructured (kind_of_unstructured desired)
                    (GetNamespace desired) (GetName desired) w) of
          Inl err \<Rightarrow> if IsNotFound err then [CallCreate (UnstructuredObject desired)] else []
        | Inr existing \<Rightarrow>
            [CallUpdate (UnstructuredObject (SetResourceVersion desired (GetResourceVersion existing)))])"
  by (simp add: createOrUpdateUnstructured_def split_beta Let_def split: sum.split)

lemma calls_card_handleDeletion:
  "calls (snd (AgentCardReconciler_handleDeletion C acard w)) =
     calls w @ (if ContainsFinalizer (card_Meta acard) agentCardFinalizer
                then [CallUpdate (CardObject (acard\<lparr>card_Meta := RemoveFinalizer (card_Meta acard) agentCardFinalizer\<rparr>))]
                else [])"
  by (simp add: AgentCardReconciler_handleDeletion_def split_beta split: sum.split)

lemma calls_policy_handleDeletion:
  "calls (snd (AgentPolicyReconciler_handleDeletion C policy w)) =
     calls w @ (if ContainsFinalizer (policy_Meta policy) agentPolicyFinalizer
                then [CallUpdate (PolicyObject (policy\<lparr>policy_Meta := RemoveFinalizer (policy_Meta policy) agentPolicyFinalizer\<rparr>))]
                else [])"
  by (simp add: AgentPolicyReconciler_handleDeletion_def split_beta split: sum.split)

lemma calls_where_sub:
  "(\<And>c. P c \<Longrightarrow> foreign_call c) \<Longrightarrow> calls_where P w = filter P (calls_where foreign_call w)"
  by (auto simp: calls_where_def intro: filter_cong)

lemma is_Delete_foreign: "is_Delete c \<Longrightarrow> foreign_call c"
  by (simp add: foreign_call_def)

lemma touches_foreign: "touches_NetworkPolicy c \<Longrightarrow> foreign_call c"
  by (simp add: foreign_call_def touches_NetworkPolicy_def)

lemma NotFound_not_NoMatch: "IsNotFound e \<Longrightarrow> \<not> IsNoMatchError e"
  by (cases e) (simp_all add: IsNotFound_def IsNoMatchError_def)

lemma failures_pos:
  "x \<in> set (trace w) \<Longrightarrow> real_failure x \<Longrightarrow> 0 < failures w"
  by (auto simp: failures_def filter_empty_conv)

lemma SplitN_slash_2_append:
  "\<not> Contains_slash ns \<Longrightarrow> SplitN_slash_2 (ns @ ''/'' @ n) = [ns, n]"
  by (induction ns) (auto simp: SplitN_slash_2_def Contains_slash_def)


lemma record_write_simps [simp]:
  "\<not> is_record_write (CallGet k ns n)" "\<not> is_record_write (CallList k ns sel)"
  "is_record_write (CallCreate r)" "is_record_write (CallUpdate r)"
  "\<not> is_record_write (CallStatusUpdate r)"
  by (simp_all add: is_record_write_def)

lemma record_writes_ops [simp]:
  "calls_where is_record_write (snd (Get_as C dec k ns n w)) = calls_where is_record_write w"
  "calls_where is_record_write (snd (Create_as C dec r w)) = calls_where is_record_write w @ [CallCreate r]"
  "calls_where is_record_write (snd (Update_as C dec r w)) = calls_where is_record_write w @ [CallUpdate r]"
  "calls_where is_record_write (snd (StatusUpdate_as C dec r w)) = calls_where is_record_write w"
  by (simp_all add: op_defs calls_where_call_client)

lemma record_writes_card_setReady [simp]:
  "calls_where is_record_write (AgentCardReconciler_setReadyCondition C c st r m w) =
     calls_where is_record_write w"
  by (simp add: AgentCardReconciler_setReadyCondition_def Let_def)

lemma record_writes_coucm:
  "calls_where is_record_write (snd (snd (createOrUpdateConfigMap C desired w))) =
     calls_where is_record_write w @
       (case fst (Get_as C as_configmap ConfigMapKind
                    (Namespace (cm_Meta desired)) (Name (cm_Meta desired)) w) of
          Inl err \<Rightarrow> if IsNotFound err then [CallCreate (ConfigMapObject desired)] else []
        | Inr existing \<Rightarrow>
            [CallUpdate (ConfigMapObject
               (existing\<lparr>cm_Data := cm_Data desired,
                         cm_Meta := (cm_Meta existing)
                           \<lparr>Labels := Labels (cm_Meta desired),
                            OwnerReferences := OwnerReferences (cm_Meta desired)\<rparr>\<rparr>))])"
  by (simp add: createOrUpdateConfigMap_def split_beta Let_def split: sum.split)

lemma record_writes_applyHTTPRoute:
  "calls_where is_record_write (snd (snd (AgentCardReconciler_applyHTTPRoute C acard desired w))) =
     calls_where is_record_write w @
       (case fst (Get_as C as_route HTTPRouteKind
                    (Namespace (route_Meta desired)) (Name (route_Meta desired)) w) of
          Inl err \<Rightarrow> if IsNotFound err then [CallCreate (RouteObject desired)] else []
        | Inr existing \<Rightarrow>
            [CallUpdate (RouteObject
               (existing\<lparr>route_Spec := route_Spec desired,
                         route_Meta := (route_Meta existing)
                           \<lparr>Labels := Labels (route_Meta desired),
                            OwnerReferences := OwnerReferences (route_Meta desired)\<rparr>\<rparr>))])"
  by (simp add: AgentCardReconciler_applyHTTPRoute_def split_beta Let_def split: sum.split)








section \<open>The claims\<close>

text \<open>
  Claim C1, as the code has it. Each of the three create-or-update operations (for the
  schema-less records, for the configuration blob and for the routing record) looks the
  record up by kind, namespace and name. When the lookup answers NotFound it creates the
  desired value; when the lookup fails otherwise it writes no record; when a record is
  stored it issues an update without comparing the desired value against the stored
  one: of the desired value carrying the stored version token for a schema-less record,
  of the stored record with the desired data or spec, labels and owner for the
  configuration blob and the routing record. So every apply whose lookup is answered
  performs exactly one write of a record, and two applies in succession perform one
  write each.
\<close>

theorem createOrUpdateUnstructured_writes:
  "calls (snd (snd (createOrUpdateUnstructured C desired w))) =
     calls w @ CallGet (kind_of_unstructured desired) (GetNamespace desired) (GetName desired) #
       (case fst (Get_as C as_unstructured (kind_of_unstructured desired)
                    (GetNamespace desired) (GetName desired) w) of
          Inl err \<Rightarrow> if IsNotFound err then [CallCreate (UnstructuredObject desired)] else []
        | Inr existing \<Rightarrow>
            [CallUpdate (UnstructuredObject (SetResourceVersion desired (GetResourceVersion existing)))])
   \<and> length (calls_where is_write (snd (snd (createOrUpdateUnstructured C desired w)))) =
       length (calls_where is_write w) + (if lookup_answers C desired w then 1 else 0)
   \<and> length (calls_where is_write
         (snd (snd (createOrUpdateUnstructured C desired
                     (snd (snd (createOrUpdateUnstructured C desired w))))))) =
       length (calls_where is_write w) + (if lookup_answers C desired w then 1 else 0)
         + (if lookup_answers C desired (snd (snd (createOrUpdateUnstructured C desired w))) then 1 else 0)
   \<and> calls_where is_record_write (snd (snd (createOrUpdateConfigMap C desiredConfigMap w))) =
       calls_where is_record_write w @
         (case fst (Get_as C as_configmap ConfigMapKind
                      (Namespace (cm_Meta desiredConfigMap)) (Name (cm_Meta desiredConfigMap)) w) of
            Inl err \<Rightarrow> if IsNotFound err then [CallCreate (ConfigMapObject desiredConfigMap)] else []
          | Inr existing \<Rightarrow>
              [CallUpdate (ConfigMapObject
                 (existing\<lparr>cm_Data := cm_Data desiredConfigMap,
                           cm_Meta := (cm_Meta existing)
                             \<lparr>Labels := Labels (cm_Meta desiredConfigMap),
                              OwnerReferences := OwnerReferences (cm_Meta desiredConfigMap)\<rparr>\<rparr>))])
   \<and> length (calls_where is_record_write (snd (snd (createOrUpdateConfigMap C desiredConfigMap w)))) =
       length (calls_where is_record_write w) +
         (if answered (fst (Get_as C as_configmap ConfigMapKind
                              (Namespace (cm_Meta desiredConfigMap)) (Name (cm_Meta desiredConfigMap)) w))
          then 1 else 0)
   \<and> calls_where is_record_write (snd (snd (AgentCardReconciler_applyHTTPRoute C acard desiredRoute w))) =
       calls_where is_record_write w @
         (case fst (Get_as C as_route HTTPRouteKind
                      (Namespace (route_Meta desiredRoute)) (Name (route_Meta desiredRoute)) w) of
            Inl err \<Rightarrow> if IsNotFound err then [CallCreate (RouteObject desiredRoute)] else []
          | Inr existing \<Rightarrow>
              [CallUpdate (RouteObject
                 (existing\<lparr>route_Spec := route_Spec desiredRoute,
                           route_Meta := (route_Meta existing)
                             \<lparr>Labels := Labels (route_Meta desiredRoute),
                              OwnerReferences := OwnerReferences (route_Meta desiredRoute)\<rparr>\<rparr>))])
   \<and> length (calls_where is_record_write
         (snd (snd (AgentCardReconciler_applyHTTPRoute C acard desiredRoute w)))) =
       length (calls_where is_record_write w) +
         (if answered (fst (Get_as C as_route HTTPRouteKind
                              (Namespace (route_Meta desiredRoute)) (Name (route_Meta desiredRoute)) w))
          then 1 else 0)"
proof -
  have u: "calls (snd (snd (createOrUpdateUnstructured C desired w))) =
     calls w @ CallGet (kind_of_unstructured desired) (GetNamespace desired) (GetName desired) #
       (case fst (Get_as C as_unstructured (kind_of_unstructured desired)
                    (GetNamespace desired) (GetName desired) w) of
          Inl err \<Rightarrow> if IsNotFound err then [CallCreate (UnstructuredObject desired)] else []
        | Inr existing \<Rightarrow>
            [CallUpdate (UnstructuredObject (SetResourceVersion desired (GetResourceVersion existing)))])
   \<and> length (calls_where is_write (snd (snd (createOrUpdateUnstructured C desired w)))) =
       length (calls_where is_write w) + (if lookup_answers C desired w then 1 else 0)
   \<and> length (calls_where is_write
         (snd (snd (createOrUpdateUnstructured C desired
                     (snd (snd (createOrUpdateUnstructured C desired w))))))) =
       length (calls_where is_write w) + (if lookup_answers C desired w then 1 else 0)
         + (if lookup_answers C desired (snd (snd (createOrUpdateUnstructured C desired w))) then 1 else 0)"
    by (simp add: calls_where_calls cou_calls lookup_answers_def is_write_def split: sum.split)
  have m: "length (calls_where is_record_write (snd (snd (createOrUpdateConfigMap C desiredConfigMap w)))) =
       length (calls_where is_record_write w) +
         (if answered (fst (Get_as C as_configmap ConfigMapKind
                              (Namespace (cm_Meta desiredConfigMap)) (Name (cm_Meta desiredConfigMap)) w))
          then 1 else 0)"
    by (simp add: record_writes_coucm answered_def split: sum.split)
  have r: "length (calls_where is_record_write
         (snd (snd (AgentCardReconciler_applyHTTPRoute C acard desiredRoute w)))) =
       length (calls_where is_record_write w) +
         (if answered (fst (Get_as C as_route HTTPRouteKind
                              (Namespace (route_Meta desiredRoute)) (Name (route_Meta desiredRoute)) w))
          then 1 else 0)"
    by (simp add: record_writes_applyHTTPRoute answered_def split: sum.split)
  from u m r record_writes_coucm [of C desiredConfigMap w]
    record_writes_applyHTTPRoute [of C acard desiredRoute w]
  show ?thesis by blast
qed

text \<open>
  Claim C1 on the in-memory platform. The second apply of the sample auth record finds
  the record stored with version token 1 and updates it with that token; the second
  apply of the sample configuration blob and of the sample routing record finds the
  record stored and updates it: two writes each.
\<close>

theorem createOrUpdateUnstructured_writes_witness:
  "calls secondApply = calls firstApply @
      [CallGet (kind_of_unstructured sampleAuthPolicy) (GetNamespace sampleAuthPolicy) (GetName sampleAuthPolicy),
       CallUpdate (UnstructuredObject (SetResourceVersion sampleAuthPolicy ''1''))]
   \<and> length (calls_where is_write secondApply) = 2
   \<and> calls_where is_record_write configMapSecondApply =
       [CallCreate (ConfigMapObject sampleConfigMap),
        CallUpdate (ConfigMapObject
          (sampleConfigMap\<lparr>cm_Meta := (cm_Meta sampleConfigMap)\<lparr>ResourceVersion := ''1''\<rparr>\<rparr>))]
   \<and> calls_where is_record_write routeSecondApply =
       [CallCreate (RouteObject sampleRoute),
        CallUpdate (RouteObject
          (sampleRoute\<lparr>route_Meta := (route_Meta sampleRoute)\<lparr>ResourceVersion := ''1''\<rparr>\<rparr>))]"
proof -
  have g: "fst (Get_as memory_client as_unstructured (kind_of_unstructured sampleAuthPolicy)
                  (GetNamespace sampleAuthPolicy) (GetName sampleAuthPolicy) firstApply)
           = Inr (SetResourceVersion sampleAuthPolicy ''1'')"
    by code_simp
  have v: "GetResourceVersion (SetResourceVersion sampleAuthPolicy ''1'') = ''1''"
    by code_simp
  have l: "lookup_answers memory_client sampleAuthPolicy (new_world [] [])"
    "lookup_answers memory_client sampleAuthPolicy firstApply"
    "calls_where is_write (new_world [] [] :: memory world) = []"
    "calls_where is_record_write (new_world [] [] :: memory world) = []"
    by code_simp+
  have c: "fst (Get_as memory_client as_configmap ConfigMapKind
                  (Namespace (cm_Meta sampleConfigMap)) (Name (cm_Meta sampleConfigMap)) (new_world [] [])) =
             Inl (StatusError ReasonNotFound ''sidecar-config-weather not found'')"
    "fst (Get_as memory_client as_configmap ConfigMapKind
            (Namespace (cm_Meta sampleConfigMap)) (Name (cm_Meta sampleConfigMap)) configMapFirstApply) =
       Inr (sampleConfigMap\<lparr>cm_Meta := (cm_Meta sampleConfigMap)\<lparr>ResourceVersion := ''1''\<rparr>\<rparr>)"
    "(sampleConfigMap\<lparr>cm_Meta := (cm_Meta sampleConfigMap)\<lparr>ResourceVersion := ''1''\<rparr>\<rparr>)
       \<lparr>cm_Data := cm_Data sampleConfigMap,
        cm_Meta := (cm_Meta (sampleConfigMap\<lparr>cm_Meta := (cm_Meta sampleConfigMap)\<lparr>ResourceVersion := ''1''\<rparr>\<rparr>))
          \<lparr>Labels := Labels (cm_Meta sampleConfigMap),
           OwnerReferences := OwnerReferences (cm_Meta sampleConfigMap)\<rparr>\<rparr> =
       sampleConfigMap\<lparr>cm_Meta := (cm_Meta sampleConfigMap)\<lparr>ResourceVersion := ''1''\<rparr>\<rparr>"
    by code_simp+
  have r: "fst (Get_as memory_client as_route HTTPRouteKind
                  (Namespace (route_Meta sampleRoute)) (Name (route_Meta sampleRoute)) (new_world [] [])) =
             Inl (StatusError ReasonNotFound ''agent-weather not found'')"
    "fst (Get_as memory_client as_route HTTPRouteKind
            (Namespace (route_Meta sampleRoute)) (Name (route_Meta sampleRoute)) routeFirstApply) =
       Inr (sampleRoute\<lparr>route_Meta := (route_Meta sampleRoute)\<lparr>ResourceVersion := ''1''\<rparr>\<rparr>)"
    "(sampleRoute\<lparr>route_Meta := (route_Meta sampleRoute)\<lparr>ResourceVersion := ''1''\<rparr>\<rparr>)
       \<lparr>route_Spec := route_Spec sampleRoute,
        route_Meta := (route_Meta (sampleRoute\<lparr>route_Meta := (route_Meta sampleRoute)\<lparr>ResourceVersion := ''1''\<rparr>\<rparr>))
          \<lparr>Labels := Labels (route_Meta sampleRoute),
           OwnerReferences := OwnerReferences (route_Meta sampleRoute)\<rparr>\<rparr> =
       sampleRoute\<lparr>route_Meta := (route_Meta sampleRoute)\<lparr>ResourceVersion := ''1''\<rparr>\<rparr>"
    by code_simp+
  have n: "IsNotFound (StatusError ReasonNotFound ''sidecar-config-weather not found'')"
    "IsNotFound (StatusError ReasonNotFound ''agent-weather not found'')"
    by (simp_all add: IsNotFound_def)
  note t0 = createOrUpdateUnstructured_writes [where C = memory_client and desired = sampleAuthPolicy
      and w = "new_world [] []" and desiredConfigMap = sampleConfigMap and acard = sampleCard
      and desiredRoute = sampleRoute]
  note t1 = createOrUpdateUnstructured_writes [where C = memory_client and desired = sampleAuthPolicy
      and w = firstApply and desiredConfigMap = sampleConfigMap and acard = sampleCard
      and desiredRoute = sampleRoute]
  note t2 = createOrUpdateUnstructured_writes [where C = memory_client and desired = sampleAuthPolicy
      and w = configMapFirstApply and desiredConfigMap = sampleConfigMap and acard = sampleCard
      and desiredRoute = sampleRoute]
  note t3 = createOrUpdateUnstructured_writes [where C = memory_client and desired = sampleAuthPolicy
      and w = routeFirstApply and desiredConfigMap = sampleConfigMap and acard = sampleCard
      and desiredRoute = sampleRoute]
  have a1: "calls secondApply = calls firstApply @
      [CallGet (kind_of_unstructured sampleAuthPolicy) (GetNamespace sampleAuthPolicy) (GetName sampleAuthPolicy),
       CallUpdate (UnstructuredObject (SetResourceVersion sampleAuthPolicy ''1''))]
     \<and> length (calls_where is_write secondApply) = 2"
    using t0 t1 by (simp add: g v l secondApply_def [symmetric] firstApply_def [symmetric])
  have c0: "calls_where is_record_write configMapFirstApply = [CallCreate (ConfigMapObject sampleConfigMap)]"
    using t0 [THEN conjunct2, THEN conjunct2, THEN conjunct2, THEN conjunct1]
    by (simp add: c n l configMapFirstApply_def [symmetric])
  have c1: "calls_where is_record_write configMapSecondApply =
       [CallCreate (ConfigMapObject sampleConfigMap),
        CallUpdate (ConfigMapObject
          (sampleConfigMap\<lparr>cm_Meta := (cm_Meta sampleConfigMap)\<lparr>ResourceVersion := ''1''\<rparr>\<rparr>))]"
    using t2 [THEN conjunct2, THEN conjunct2, THEN conjunct2, THEN conjunct1]
    by (simp only: configMapSecondApply_def [symmetric] c c0 sum.case append.simps)
  have r0: "calls_where is_record_write routeFirstApply = [CallCreate (RouteObject sampleRoute)]"
    using t0 [THEN conjunct2, THEN conjunct2, THEN conjunct2, THEN conjunct2, THEN conjunct2, THEN conjunct1]
    by (simp add: r n l routeFirstApply_def [symmetric])
  have r1: "calls_where is_record_write routeSecondApply =
       [CallCreate (RouteObject sampleRoute),
        CallUpdate (RouteObject
          (sampleRoute\<lparr>route_Meta := (route_Meta sampleRoute)\<lparr>ResourceVersion := ''1''\<rparr>\<rparr>))]"
    using t3 [THEN conjunct2, THEN conjunct2, THEN conjunct2, THEN conjunct2, THEN conjunct2, THEN conjunct1]
    by (simp only: routeSecondApply_def [symmetric] r r0 sum.case append.simps)
  from a1 c1 r1 show ?thesis by blast
qed

text \<open>
  Claim C1 as stated fails: applying the sample auth record twice to an empty platform
  issues a create and then an update, both successful, although the stored record has
  the spec of the desired one.
\<close>

theorem second_apply_writes_counterexample:
  "calls secondApply =
     [CallGet (UnstructuredKind ''kuadrant.io/v1'' ''AuthPolicy'') ''default'' ''ap-weather'',
      CallCreate (UnstructuredObject sampleAuthPolicy),
      CallGet (UnstructuredKind ''kuadrant.io/v1'' ''AuthPolicy'') ''default'' ''ap-weather'',
      CallUpdate (UnstructuredObject (SetResourceVersion sampleAuthPolicy ''1''))]
   \<and> map snd (trace secondApply) =
       [Some (StatusError ReasonNotFound ''ap-weather not found''), None, None, None]
   \<and> length (calls_where is_write secondApply) = 2
   \<and> map snd (objects (platform firstApply)) = [UnstructuredObject (SetResourceVersion sampleAuthPolicy ''1'')]
   \<and> map_of (SetResourceVersion sampleAuthPolicy ''1'') ''spec'' = map_of sampleAuthPolicy ''spec''"
  by code_simp

text \<open>
  Claim C2, as the code has it. For every policy record and identity record the
  egress-control record built by the synthesizer selects pods by the identity record's
  name label and has exactly two egress rules, one for UDP and TCP on port 53 and one
  to every namespace of the cluster; its spec is the same for every policy record.
  Neither engine applies it: no call of a reconcile of either engine concerns a
  NetworkPolicy.
\<close>

theorem BuildNetworkPolicy_shape:
  "np_Spec (BuildNetworkPolicy policy acard) =
     \<lparr>np_PodSelector = \<lparr>ls_MatchLabels = [(labelAgentCard, Name (card_Meta acard))], ls_MatchExpressions = []\<rparr>,
      np_Egress =
        [\<lparr>Ports = [\<lparr>npp_Protocol = Some ''UDP'', npp_Port = Some (FromInt32 53)\<rparr>,
                   \<lparr>npp_Protocol = Some ''TCP'', npp_Port = Some (FromInt32 53)\<rparr>],
          To = []\<rparr>,
         \<lparr>Ports = [],
          To = [\<lparr>PodSelector = None,
                 NamespaceSelector = Some \<lparr>ls_MatchLabels = [], ls_MatchExpressions = []\<rparr>,
                 IPBlock = None\<rparr>]\<rparr>],
      np_PolicyTypes = [''Egress'']\<rparr>
   \<and> length (np_Egress (np_Spec (BuildNetworkPolicy policy acard))) = 2
   \<and> np_Spec (BuildNetworkPolicy policy acard) = np_Spec (BuildNetworkPolicy policy' acard)
   \<and> calls_where touches_NetworkPolicy (snd (AgentCardReconciler_Reconcile C g gn req w)) =
       calls_where touches_NetworkPolicy w
   \<and> calls_where touches_NetworkPolicy (snd (AgentPolicyReconciler_Reconcile C' Marshal req' w')) =
       calls_where touches_NetworkPolicy w'"
  by (simp add: BuildNetworkPolicy_def Let_def labelAgentCard_def
        calls_where_sub [of touches_NetworkPolicy, OF touches_foreign]
        foreign_card_Reconcile foreign_policy_Reconcile)

text \<open>
  Claim C2 on the sample records: the egress rules are the same for two policies, and
  the two reconciles on the in-memory platform issue no call on a NetworkPolicy.
\<close>

theorem BuildNetworkPolicy_shape_witness:
  "np_Egress (np_Spec (BuildNetworkPolicy samplePolicy sampleCard)) =
     np_Egress (np_Spec (BuildNetworkPolicy noRatePolicy sampleCard))
   \<and> map (map npp_Port \<circ> Ports) (np_Egress (np_Spec (BuildNetworkPolicy samplePolicy sampleCard))) =
       [[Some (FromInt32 53), Some (FromInt32 53)], []]
   \<and> calls_where touches_NetworkPolicy world1 = []
   \<and> calls_where touches_NetworkPolicy world2 = []"
proof -
  have h: "calls_where touches_NetworkPolicy world0 = []"
    by code_simp
  show ?thesis
    using BuildNetworkPolicy_shape [where policy = samplePolicy and policy' = noRatePolicy and acard = sampleCard
        and C = memory_client and g = "''gw''" and gn = "''gw-ns''" and req = "sampleRequest ''weather''"
        and w = world0 and C' = memory_client and Marshal = testMarshal
        and req' = "sampleRequest ''premium-policy''" and w' = world1]
      BuildNetworkPolicy_shape [where policy = noRatePolicy and policy' = samplePolicy and acard = sampleCard
        and C = memory_client and g = "''gw''" and gn = "''gw-ns''" and req = "sampleRequest ''weather''"
        and w = world0 and C' = memory_client and Marshal = testMarshal
        and req' = "sampleRequest ''premium-policy''" and w' = world1] h
    by (simp add: world1_def [symmetric] world2_def [symmetric])
qed

text \<open>
  Claim C2 as stated fails: reconciling the sample identity record and then the sample
  policy record (with ingress, rate and external sections) succeeds, writes the routing,
  tool-registration, auth, rate-limit and configuration records, and writes no
  egress-control record.
\<close>

theorem no_network_policy_applied_counterexample:
  "fst (AgentCardReconciler_Reconcile memory_client ''gw'' ''gw-ns'' (sampleRequest ''weather'') world0) = None
   \<and> fst (AgentPolicyReconciler_Reconcile memory_client testMarshal (sampleRequest ''premium-policy'') world1) = None
   \<and> map call_kind (calls_where is_write world2) =
       [AgentCardKind, HTTPRouteKind, UnstructuredKind ''mcp.kagenti.com/v1alpha1'' ''MCPServerRegistration'',
        AgentCardKind, AgentPolicyKind, UnstructuredKind ''kuadrant.io/v1'' ''AuthPolicy'',
        UnstructuredKind ''kuadrant.io/v1'' ''RateLimitPolicy'', ConfigMapKind, AgentPolicyKind]
   \<and> calls_where touches_NetworkPolicy world2 = []
   \<and> map (fst \<circ> fst) (objects (platform world2)) =
       [AgentCardKind, AgentPolicyKind, HTTPRouteKind,
        UnstructuredKind ''mcp.kagenti.com/v1alpha1'' ''MCPServerRegistration'',
        UnstructuredKind ''kuadrant.io/v1'' ''AuthPolicy'',
        UnstructuredKind ''kuadrant.io/v1'' ''RateLimitPolicy'', ConfigMapKind]"
  by code_simp

text \<open>
  Claim C3. The selector that asks for the key "missing" with the empty value matches
  a label map that has no such key, because the matcher compares the selector's value
  with what the map gives at the key and an absent key gives the empty string. The
  four examples of the claim hold.
\<close>

theorem labelsMatchSelector_absent_key:
  "labelsMatchSelector [(''tier'', ''premium''), (''region'', ''us-east'')] [(''missing'', [])]
   \<and> map_of [(''tier'', ''premium''), (''region'', ''us-east'')] ''missing'' = None
   \<and> labelsMatchSelector [(''tier'', ''premium''), (''region'', ''us-east'')] [(''tier'', ''premium'')]
   \<and> labelsMatchSelector [(''tier'', ''premium''), (''region'', ''us-east'')] []
   \<and> \<not> labelsMatchSelector [(''tier'', ''premium''), (''region'', ''us-east'')] [(''tier'', ''standard'')]
   \<and> \<not> labelsMatchSelector [(''tier'', ''premium''), (''region'', ''us-east'')] [(''missing'', ''label'')]"
  by (simp add: map_index_def)

text \<open>
  Claim C4. For every policy record with an ingress section, the auth record holds one
  predicate per allowed-caller entry, in order, each with selector auth.identity.sub,
  operator eq and the resolved account as its value; an empty list gives no
  predicate. An entry without a slash resolves to
  system:serviceaccount:{policyNamespace}:{name}, an entry ns/name to
  system:serviceaccount:ns:name.
\<close>

theorem BuildAuthPolicy_predicates:
  "(Ingress (policy_Spec policy) = Some ingress \<longrightarrow>
      authPredicates (BuildAuthPolicy policy acard httpRouteName) =
        Some (VList (map (\<lambda>agent. VMap
                            [(''selector'', VString ''auth.identity.sub''),
                             (''operator'', VString ''eq''),
                             (''value'', VString (resolveServiceAccount agent (Namespace (policy_Meta policy))))])
                       (AllowedAgents ingress))))
   \<and> (Ingress (policy_Spec policy) = Some ingress \<and> AllowedAgents ingress = [] \<longrightarrow>
      authPredicates (BuildAuthPolicy policy acard httpRouteName) = Some (VList []))
   \<and> (CHR ''/'' \<notin> set name \<longrightarrow>
      resolveServiceAccount name policyNamespace = ''system:serviceaccount:'' @ policyNamespace @ '':'' @ name)
   \<and> (CHR ''/'' \<notin> set ns \<longrightarrow>
      resolveServiceAccount (ns @ ''/'' @ name) policyNamespace = ''system:serviceaccount:'' @ ns @ '':'' @ name)
   \<and> resolveServiceAccount ''orchestrator'' ''default'' = ''system:serviceaccount:default:orchestrator''
   \<and> resolveServiceAccount ''other-ns/planner'' ''default'' = ''system:serviceaccount:other-ns:planner''"
proof -
  have p: "authPredicates (BuildAuthPolicy policy acard httpRouteName) =
        Some (VList (case Ingress (policy_Spec policy) of
                       None \<Rightarrow> []
                     | Some ingress \<Rightarrow>
                         map (\<lambda>agent. VMap
                                [(''selector'', VString ''auth.identity.sub''),
                                 (''operator'', VString ''eq''),
                                 (''value'', VString (resolveServiceAccount agent (Namespace (policy_Meta policy))))])
                           (AllowedAgents ingress)))"
    by (simp add: authPredicates_def BuildAuthPolicy_def setUnstructuredOwnerRef_def Let_def)
  have a: "CHR ''/'' \<notin> set name \<longrightarrow>
      resolveServiceAccount name policyNamespace = ''system:serviceaccount:'' @ policyNamespace @ '':'' @ name"
    by (simp add: resolveServiceAccount_def Contains_slash_def)
  have b: "CHR ''/'' \<notin> set ns \<longrightarrow>
      resolveServiceAccount (ns @ ''/'' @ name) policyNamespace = ''system:serviceaccount:'' @ ns @ '':'' @ name"
    using SplitN_slash_2_append [of ns name]
    by (simp add: resolveServiceAccount_def Let_def Contains_slash_def)
  have c: "resolveServiceAccount ''orchestrator'' ''default'' = ''system:serviceaccount:default:orchestrator''"
    by (simp add: resolveServiceAccount_def Contains_slash_def)
  have d: "resolveServiceAccount ''other-ns/planner'' ''default'' = ''system:serviceaccount:other-ns:planner''"
    by (simp add: resolveServiceAccount_def Contains_slash_def SplitN_slash_2_def)
  from p a b c d show ?thesis by simp
qed

text \<open>
  Claim C4 on a policy that allows "orchestrator" and "other-ns/planner", and on one
  with an empty list of allowed callers.
\<close>

theorem BuildAuthPolicy_predicates_witness:
  "Ingress (policy_Spec callerPolicy) = Some \<lparr>AllowedAgents = [''orchestrator'', ''other-ns/planner''], AllowedUsers = []\<rparr>
   \<and> authPredicates (BuildAuthPolicy callerPolicy sampleCard ''agent-weather'') =
       Some (VList [VMap [(''selector'', VString ''auth.identity.sub''),
                          (''operator'', VString ''eq''),
                          (''value'', VString ''system:serviceaccount:default:orchestrator'')],
                    VMap [(''selector'', VString ''auth.identity.sub''),
                          (''operator'', VString ''eq''),
                          (''value'', VString ''system:serviceaccount:other-ns:planner'')]])
   \<and> Ingress (policy_Spec noCallerPolicy) = Some \<lparr>AllowedAgents = [], AllowedUsers = []\<rparr>
   \<and> authPredicates (BuildAuthPolicy noCallerPolicy sampleCard ''agent-weather'') = Some (VList [])
   \<and> CHR ''/'' \<notin> set ''orchestrator'' \<and> CHR ''/'' \<notin> set ''other-ns''
   \<and> resolveServiceAccount (''other-ns'' @ ''/'' @ ''planner'') ''default'' =
       ''system:serviceaccount:'' @ ''other-ns'' @ '':'' @ ''planner''"
proof -
  have h: "Ingress (policy_Spec callerPolicy) = Some \<lparr>AllowedAgents = [''orchestrator'', ''other-ns/planner''], AllowedUsers = []\<rparr>"
    "Ingress (policy_Spec noCallerPolicy) = Some \<lparr>AllowedAgents = [], AllowedUsers = []\<rparr>"
    "CHR ''/'' \<notin> set ''orchestrator''" "CHR ''/'' \<notin> set ''other-ns''"
    "Namespace (policy_Meta callerPolicy) = ''default''"
    by (simp_all add: callerPolicy_def noCallerPolicy_def samplePolicy_def testAgentPolicy_def
          new_ObjectMeta_def)
  show ?thesis
    using BuildAuthPolicy_predicates [where policy = callerPolicy
        and ingress = "\<lparr>AllowedAgents = [''orchestrator'', ''other-ns/planner''], AllowedUsers = []\<rparr>"
        and acard = sampleCard and httpRouteName = "''agent-weather''" and name = "''planner''"
        and ns = "''other-ns''" and policyNamespace = "''default''"]
      BuildAuthPolicy_predicates [where policy = noCallerPolicy
        and ingress = "\<lparr>AllowedAgents = [], AllowedUsers = []\<rparr>"
        and acard = sampleCard and httpRouteName = "''agent-weather''" and name = "''orchestrator''"
        and ns = "''other-ns''" and policyNamespace = "''default''"] h
    by simp
qed



text \<open>
  Claim C6. When the fetched identity or policy record has its deletion marker set, the
  reconcile issues, after the fetch, the update that removes the finalizer if the
  finalizer is present and nothing else. No reconcile of either engine, on any platform,
  issues a delete.
\<close>

theorem deletion_removes_finalizer_only:
  "(case Get_as C as_card AgentCardKind (req_Namespace req) (req_Name req) w of
      (Inl err, w1) \<Rightarrow> True
    | (Inr acard, w1) \<Rightarrow>
        if \<not> IsZero (DeletionTimestamp (card_Meta acard))
        then calls (snd (AgentCardReconciler_Reconcile C g gn req w)) =
               calls w1 @ (if ContainsFinalizer (card_Meta acard) agentCardFinalizer
                           then [CallUpdate (CardObject (acard\<lparr>card_Meta := RemoveFinalizer (card_Meta acard) agentCardFinalizer\<rparr>))]
                           else [])
        else True)
   \<and> (case Get_as C as_policy AgentPolicyKind (req_Namespace req) (req_Name req) w of
      (Inl err, w1) \<Rightarrow> True
    | (Inr policy, w1) \<Rightarrow>
        if \<not> IsZero (DeletionTimestamp (policy_Meta policy))
        then calls (snd (AgentPolicyReconciler_Reconcile C M req w)) =
               calls w1 @ (if ContainsFinalizer (policy_Meta policy) agentPolicyFinalizer
                           then [CallUpdate (PolicyObject (policy\<lparr>policy_Meta := RemoveFinalizer (policy_Meta policy) agentPolicyFinalizer\<rparr>))]
                           else [])
        else True)
   \<and> \<not> ContainsFinalizer (RemoveFinalizer m f) f
   \<and> calls_where is_Delete (snd (AgentCardReconciler_Reconcile C g gn req w)) = calls_where is_Delete w
   \<and> calls_where is_Delete (snd (AgentPolicyReconciler_Reconcile C M req w)) = calls_where is_Delete w"
proof -
  have a: "calls_where is_Delete (snd (AgentCardReconciler_Reconcile C g gn req w)) = calls_where is_Delete w"
    by (simp add: calls_where_sub [of is_Delete, OF is_Delete_foreign] foreign_card_Reconcile)
  have b: "calls_where is_Delete (snd (AgentPolicyReconciler_Reconcile C M req w)) = calls_where is_Delete w"
    by (simp add: calls_where_sub [of is_Delete, OF is_Delete_foreign] foreign_policy_Reconcile)
  have c: "\<not> ContainsFinalizer (RemoveFinalizer m f) f"
    by (simp add: ContainsFinalizer_def RemoveFinalizer_def)
  have d: "(case Get_as C as_card AgentCardKind (req_Namespace req) (req_Name req) w of
      (Inl err, w1) \<Rightarrow> True
    | (Inr acard, w1) \<Rightarrow>
        if \<not> IsZero (DeletionTimestamp (card_Meta acard))
        then calls (snd (AgentCardReconciler_Reconcile C g gn req w)) =
               calls w1 @ (if ContainsFinalizer (card_Meta acard) agentCardFinalizer
                           then [CallUpdate (CardObject (acard\<lparr>card_Meta := RemoveFinalizer (card_Meta acard) agentCardFinalizer\<rparr>))]
                           else [])
        else True)"
    by (simp add: AgentCardReconciler_Reconcile_def calls_card_handleDeletion split: prod.split sum.split)
  have e: "(case Get_as C as_policy AgentPolicyKind (req_Namespace req) (req_Name req) w of
      (Inl err, w1) \<Rightarrow> True
    | (Inr policy, w1) \<Rightarrow>
        if \<not> IsZero (DeletionTimestamp (policy_Meta policy))
        then calls (snd (AgentPolicyReconciler_Reconcile C M req w)) =
               calls w1 @ (if ContainsFinalizer (policy_Meta policy) agentPolicyFinalizer
                           then [CallUpdate (PolicyObject (policy\<lparr>policy_Meta := RemoveFinalizer (policy_Meta policy) agentPolicyFinalizer\<rparr>))]
                           else [])
        else True)"
    by (simp add: AgentPolicyReconciler_Reconcile_def calls_policy_handleDeletion split: prod.split sum.split)
  from a b c d e show ?thesis by blast
qed

text \<open>
  Claim C6 on an identity record and a policy record that are being deleted, the routing
  record still stored.
\<close>

theorem deletion_removes_finalizer_only_witness:
  "calls (snd (AgentCardReconciler_Reconcile memory_client ''gw'' ''gw-ns'' (sampleRequest ''weather'') deletionWorld)) =
     [CallGet AgentCardKind ''default'' ''weather'',
      CallUpdate (CardObject (deletingCard\<lparr>card_Meta := RemoveFinalizer (card_Meta deletingCard) agentCardFinalizer\<rparr>))]
   \<and> calls (snd (AgentPolicyReconciler_Reconcile memory_client testMarshal (sampleRequest ''premium-policy'') deletionWorld)) =
     [CallGet AgentPolicyKind ''default'' ''premium-policy'',
      CallUpdate (PolicyObject (deletingPolicy\<lparr>policy_Meta := RemoveFinalizer (policy_Meta deletingPolicy) agentPolicyFinalizer\<rparr>))]
   \<and> Finalizers (RemoveFinalizer (card_Meta deletingCard) agentCardFinalizer) = []
   \<and> calls_where is_Delete (snd (AgentCardReconciler_Reconcile memory_client ''gw'' ''gw-ns'' (sampleRequest ''weather'') deletionWorld)) = []
   \<and> calls_where is_Delete (snd (AgentPolicyReconciler_Reconcile memory_client testMarshal (sampleRequest ''premium-policy'') deletionWorld)) = []"
proof -
  have c: "fst (Get_as memory_client as_card AgentCardKind (req_Namespace (sampleRequest ''weather''))
                  (req_Name (sampleRequest ''weather'')) deletionWorld) = Inr deletingCard"
    by code_simp
  have p: "fst (Get_as memory_client as_policy AgentPolicyKind (req_Namespace (sampleRequest ''premium-policy''))
                  (req_Name (sampleRequest ''premium-policy'')) deletionWorld) = Inr deletingPolicy"
    by code_simp
  have r: "req_Namespace (sampleRequest ''weather'') = ''default''" "req_Name (sampleRequest ''weather'') = ''weather''"
    "req_Namespace (sampleRequest ''premium-policy'') = ''default''"
    "req_Name (sampleRequest ''premium-policy'') = ''premium-policy''"
    by (simp_all add: sampleRequest_def)
  have i: "\<not> IsZero (DeletionTimestamp (card_Meta deletingCard))"
    "\<not> IsZero (DeletionTimestamp (policy_Meta deletingPolicy))"
    "ContainsFinalizer (card_Meta deletingCard) agentCardFinalizer"
    "ContainsFinalizer (policy_Meta deletingPolicy) agentPolicyFinalizer"
    "Finalizers (RemoveFinalizer (card_Meta deletingCard) agentCardFinalizer) = []"
    "calls deletionWorld = []" "calls_where is_Delete deletionWorld = []"
    by code_simp+
  show ?thesis
    using deletion_removes_finalizer_only [where C = memory_client and req = "sampleRequest ''weather''"
        and w = deletionWorld and g = "''gw''" and gn = "''gw-ns''"]
      deletion_removes_finalizer_only [where C = memory_client and req = "sampleRequest ''premium-policy''"
        and w = deletionWorld and M = testMarshal]
    by (simp add: split_beta c p i) (simp add: r)
qed

text \<open>
  Claim C7. The routing record is named agent-{identityName}, has one rule matching the
  path prefix /agents/{identityName} with one backend {identityName}-svc on the service
  port, or on 8080 when the service port is zero, and one parent reference to the
  configured gateway name and namespace.
\<close>

theorem BuildHTTPRoute_shape:
  "Name (route_Meta (BuildHTTPRoute acard gatewayName gatewayNamespace)) = ''agent-'' @ Name (card_Meta acard)
   \<and> Rules (route_Spec (BuildHTTPRoute acard gatewayName gatewayNamespace)) =
       [\<lparr>Matches = [\<lparr>Path = Some \<lparr>pm_Type = Some ''PathPrefix'',
                                   pm_Value = Some (''/agents/'' @ Name (card_Meta acard))\<rparr>\<rparr>],
         BackendRefs = [\<lparr>br_Name = Name (card_Meta acard) @ ''-svc'',
                         br_Port = Some (if ServicePort (card_Spec acard) = 0 then 8080
                                         else ServicePort (card_Spec acard))\<rparr>]\<rparr>]
   \<and> ParentRefs (route_Spec (BuildHTTPRoute acard gatewayName gatewayNamespace)) =
       [\<lparr>pr_Group = Some ''gateway.networking.k8s.io'', pr_Kind = Some ''Gateway'',
         pr_Namespace = Some gatewayNamespace, pr_Name = gatewayName\<rparr>]"
  by (simp add: BuildHTTPRoute_def Let_def setOwnerRef_def new_ObjectMeta_def)

text \<open>
  Claim C7 on the sample record: service port 0 gives backend port 8080, 9090 gives 9090.
\<close>

theorem BuildHTTPRoute_shape_witness:
  "map br_Port (concat (map BackendRefs (Rules (route_Spec (BuildHTTPRoute defaultPortCard ''gw'' ''gw-ns''))))) = [Some 8080]
   \<and> map br_Port (concat (map BackendRefs (Rules (route_Spec (BuildHTTPRoute sampleCard ''gw'' ''gw-ns''))))) = [Some 9090]
   \<and> Name (route_Meta (BuildHTTPRoute sampleCard ''gw'' ''gw-ns'')) = ''agent-weather''"
proof -
  have h: "ServicePort (card_Spec defaultPortCard) = 0" "ServicePort (card_Spec sampleCard) = 9090"
    "Name (card_Meta sampleCard) = ''weather''"
    by (simp_all add: defaultPortCard_def sampleCard_def testAgentCard_def new_ObjectMeta_def)
  show ?thesis
    using BuildHTTPRoute_shape [where acard = defaultPortCard and gatewayName = "''gw''" and gatewayNamespace = "''gw-ns''"]
      BuildHTTPRoute_shape [where acard = sampleCard and gatewayName = "''gw''" and gatewayNamespace = "''gw-ns''"] h
    by simp
qed

text \<open>
  Claim C8. The rate-limit record targets the routing record (its target reference
  has group gateway.networking.k8s.io, kind HTTPRoute and the route's name) and has
  exactly one rate with window 1m, whose limit is the policy's requests per minute, or
  60 when the policy has no rate section.
\<close>

theorem BuildRateLimitPolicy_limit:
  "rateRules (BuildRateLimitPolicy policy acard httpRouteName) =
     Some (VList [VMap [(''limit'', VInt (case RateLimit (policy_Spec policy) of
                                            None \<Rightarrow> 60 | Some rl \<Rightarrow> RequestsPerMinute rl)),
                        (''window'', VString ''1m'')]])
   \<and> NestedField (BuildRateLimitPolicy policy acard httpRouteName) [''spec'', ''targetRef''] =
       Some (VMap [(''group'', VString ''gateway.networking.k8s.io''),
                   (''kind'', VString ''HTTPRoute''),
                   (''name'', VString httpRouteName)])"
  by (simp add: rateRules_def BuildRateLimitPolicy_def setUnstructuredOwnerRef_def Let_def)

text \<open>
  Claim C8 on the sample policy: no rate section gives 60, requestsPerMinute 100 gives 100.
\<close>

theorem BuildRateLimitPolicy_limit_witness:
  "rateRules (BuildRateLimitPolicy noRatePolicy sampleCard ''agent-weather'') =
     Some (VList [VMap [(''limit'', VInt 60), (''window'', VString ''1m'')]])
   \<and> rateRules (BuildRateLimitPolicy samplePolicy sampleCard ''agent-weather'') =
     Some (VList [VMap [(''limit'', VInt 100), (''window'', VString ''1m'')]])
   \<and> NestedField (BuildRateLimitPolicy samplePolicy sampleCard ''agent-weather'') [''spec'', ''targetRef''] =
       Some (VMap [(''group'', VString ''gateway.networking.k8s.io''),
                   (''kind'', VString ''HTTPRoute''),
                   (''name'', VString ''agent-weather'')])"
proof -
  have h: "RateLimit (policy_Spec noRatePolicy) = None"
    "RateLimit (policy_Spec samplePolicy) = Some \<lparr>RequestsPerMinute = 100\<rparr>"
    by (simp_all add: noRatePolicy_def samplePolicy_def testAgentPolicy_def)
  show ?thesis
    using BuildRateLimitPolicy_limit [where policy = noRatePolicy and acard = sampleCard and httpRouteName = "''agent-weather''"]
      BuildRateLimitPolicy_limit [where policy = samplePolicy and acard = sampleCard and httpRouteName = "''agent-weather''"] h
    by simp
qed

text \<open>
  Claim C9, as the code has it. The name of every downstream record is the fixed prefix
  of its kind followed by the name of the identity record it is built for (agent-, ap-,
  rlp-, sidecar-config-, mcp-, and egress- for the egress-control record), also where
  the owner is the policy record. Building again from an identity record and a policy
  record with the same name, namespace, UID and spec gives the identical desired value,
  whatever else of the records has changed.
\<close>

theorem names_and_determinism:
  "Name (route_Meta (BuildHTTPRoute acard gatewayName gatewayNamespace)) = ''agent-'' @ Name (card_Meta acard)
   \<and> GetName (BuildAuthPolicy policy acard httpRouteName) = ''ap-'' @ Name (card_Meta acard)
   \<and> GetName (BuildRateLimitPolicy policy acard httpRouteName) = ''rlp-'' @ Name (card_Meta acard)
   \<and> (case BuildSidecarConfigMap Marshal policy acard of
        Inl err \<Rightarrow> True
      | Inr cm \<Rightarrow> Name (cm_Meta cm) = ''sidecar-config-'' @ Name (card_Meta acard))
   \<and> GetName (BuildMCPServerRegistration acard httpRouteName) = ''mcp-'' @ Name (card_Meta acard)
   \<and> Name (np_Meta (BuildNetworkPolicy policy acard)) = ''egress-'' @ Name (card_Meta acard)
   \<and> (Name (card_Meta acard) = Name (card_Meta acard') \<and> Namespace (card_Meta acard) = Namespace (card_Meta acard')
        \<and> UID (card_Meta acard) = UID (card_Meta acard') \<and> card_Spec acard = card_Spec acard'
        \<and> Name (policy_Meta policy) = Name (policy_Meta policy')
        \<and> Namespace (policy_Meta policy) = Namespace (policy_Meta policy')
        \<and> UID (policy_Meta policy) = UID (policy_Meta policy') \<and> policy_Spec policy = policy_Spec policy'
      \<longrightarrow> BuildHTTPRoute acard gatewayName gatewayNamespace = BuildHTTPRoute acard' gatewayName gatewayNamespace
        \<and> BuildAuthPolicy policy acard httpRouteName = BuildAuthPolicy policy' acard' httpRouteName
        \<and> BuildRateLimitPolicy policy acard httpRouteName = BuildRateLimitPolicy policy' acard' httpRouteName
        \<and> BuildSidecarConfigMap Marshal policy acard = BuildSidecarConfigMap Marshal policy' acard'
        \<and> BuildMCPServerRegistration acard httpRouteName = BuildMCPServerRegistration acard' httpRouteName
        \<and> BuildNetworkPolicy policy acard = BuildNetworkPolicy policy' acard')"
proof -
  have names:
    "Name (route_Meta (BuildHTTPRoute acard gatewayName gatewayNamespace)) = ''agent-'' @ Name (card_Meta acard)"
    "GetName (BuildAuthPolicy policy acard httpRouteName) = ''ap-'' @ Name (card_Meta acard)"
    "GetName (BuildRateLimitPolicy policy acard httpRouteName) = ''rlp-'' @ Name (card_Meta acard)"
    "GetName (BuildMCPServerRegistration acard httpRouteName) = ''mcp-'' @ Name (card_Meta acard)"
    "Name (np_Meta (BuildNetworkPolicy policy acard)) = ''egress-'' @ Name (card_Meta acard)"
    by (simp_all add: BuildHTTPRoute_def BuildAuthPolicy_def BuildRateLimitPolicy_def
          BuildMCPServerRegistration_def BuildNetworkPolicy_def GetName_def NestedString_def
          setUnstructuredOwnerRef_def setOwnerRef_def new_ObjectMeta_def Let_def)
  have cm: "case BuildSidecarConfigMap Marshal policy acard of
        Inl err \<Rightarrow> True
      | Inr cm \<Rightarrow> Name (cm_Meta cm) = ''sidecar-config-'' @ Name (card_Meta acard)"
    by (simp add: BuildSidecarConfigMap_def setOwnerRef_def new_ObjectMeta_def split: sum.split)
  have det: "BuildHTTPRoute acard gatewayName gatewayNamespace = BuildHTTPRoute acard' gatewayName gatewayNamespace
        \<and> BuildAuthPolicy policy acard httpRouteName = BuildAuthPolicy policy' acard' httpRouteName
        \<and> BuildRateLimitPolicy policy acard httpRouteName = BuildRateLimitPolicy policy' acard' httpRouteName
        \<and> BuildSidecarConfigMap Marshal policy acard = BuildSidecarConfigMap Marshal policy' acard'
        \<and> BuildMCPServerRegistration acard httpRouteName = BuildMCPServerRegistration acard' httpRouteName
        \<and> BuildNetworkPolicy policy acard = BuildNetworkPolicy policy' acard'"
    if "Name (card_Meta acard) = Name (card_Meta acard')" "Namespace (card_Meta acard) = Namespace (card_Meta acard')"
      "UID (card_Meta acard) = UID (card_Meta acard')" "card_Spec acard = card_Spec acard'"
      "Name (policy_Meta policy) = Name (policy_Meta policy')"
      "Namespace (policy_Meta policy) = Namespace (policy_Meta policy')"
      "UID (policy_Meta policy) = UID (policy_Meta policy')" "policy_Spec policy = policy_Spec policy'"
    using that
    by (simp add: BuildHTTPRoute_def BuildAuthPolicy_def BuildRateLimitPolicy_def BuildSidecarConfigMap_def
          BuildMCPServerRegistration_def BuildNetworkPolicy_def buildSidecarConfig_def
          setUnstructuredOwnerRef_def setOwnerRef_def new_ObjectMeta_def Let_def
          split: option.split sum.split)
  from names cm det show ?thesis by blast
qed

text \<open>
  Claim C9 on the sample identity record before and after its reconcile (finalizer,
  version token and status differ).
\<close>

theorem names_and_determinism_witness:
  "Name (card_Meta sampleCard) = Name (card_Meta reconciledCard)
   \<and> Namespace (card_Meta sampleCard) = Namespace (card_Meta reconciledCard)
   \<and> UID (card_Meta sampleCard) = UID (card_Meta reconciledCard)
   \<and> card_Spec sampleCard = card_Spec reconciledCard
   \<and> sampleCard \<noteq> reconciledCard
   \<and> BuildHTTPRoute sampleCard ''gw'' ''gw-ns'' = BuildHTTPRoute reconciledCard ''gw'' ''gw-ns''
   \<and> BuildAuthPolicy samplePolicy sampleCard ''agent-weather'' = BuildAuthPolicy samplePolicy reconciledCard ''agent-weather''
   \<and> GetName (BuildAuthPolicy samplePolicy sampleCard ''agent-weather'') = ''ap-weather''
   \<and> GetName (BuildRateLimitPolicy samplePolicy sampleCard ''agent-weather'') = ''rlp-weather''
   \<and> GetName (BuildMCPServerRegistration sampleCard ''agent-weather'') = ''mcp-weather''
   \<and> \<not> isl (BuildSidecarConfigMap testMarshal samplePolicy sampleCard)
   \<and> Name (cm_Meta (projr (BuildSidecarConfigMap testMarshal samplePolicy sampleCard))) = ''sidecar-config-weather''"
proof -
  have h: "Name (card_Meta sampleCard) = Name (card_Meta reconciledCard)"
    "Namespace (card_Meta sampleCard) = Namespace (card_Meta reconciledCard)"
    "UID (card_Meta sampleCard) = UID (card_Meta reconciledCard)"
    "card_Spec sampleCard = card_Spec reconciledCard"
    "sampleCard \<noteq> reconciledCard"
    "Name (card_Meta sampleCard) = ''weather''"
    "\<not> isl (BuildSidecarConfigMap testMarshal samplePolicy sampleCard)"
    by code_simp+
  show ?thesis
    using names_and_determinism [where acard = sampleCard and acard' = reconciledCard and policy = samplePolicy
        and policy' = samplePolicy and gatewayName = "''gw''" and gatewayNamespace = "''gw-ns''"
        and httpRouteName = "''agent-weather''" and Marshal = testMarshal] h
    by (auto split: sum.splits)
qed

text \<open>
  Claim C9 as stated fails: the auth records of one policy record for two identity
  records have the same owner and kind and distinct names, and the egress-control
  record's name starts with none of the five prefixes.
\<close>

theorem name_from_parent_counterexample:
  "ownerReferencesOf (BuildAuthPolicy samplePolicy cardA ''agent-a'') =
     ownerReferencesOf (BuildAuthPolicy samplePolicy cardB ''agent-b'')
   \<and> GetKind (BuildAuthPolicy samplePolicy cardA ''agent-a'') = GetKind (BuildAuthPolicy samplePolicy cardB ''agent-b'')
   \<and> GetName (BuildAuthPolicy samplePolicy cardA ''agent-a'') = ''ap-a''
   \<and> GetName (BuildAuthPolicy samplePolicy cardB ''agent-b'') = ''ap-b''
   \<and> Name (np_Meta (BuildNetworkPolicy samplePolicy cardA)) = ''egress-a''"
  by code_simp

text \<open>
  Claim C10. The identity engine's classifier accepts a missing type and NotFound, the
  policy engine's a missing type only, and NotFound is not a missing type. When the
  write of the tool-registration record fails with either, the identity engine's step
  succeeds. When the write of the auth or of the rate-limit record fails, the policy
  engine swallows a missing type (no error, no generated reference) and collects every
  other failure, leaving the iteration. A write of a schema-less record that failed
  with NotFound during the fan-out makes the policy reconcile fail.
\<close>

theorem classifiers_differ:
  "isCRDNotFound (Some e) = (IsNoMatchError e \<or> IsNotFound e)
   \<and> isCRDNotFoundPolicy (Some e) = IsNoMatchError e
   \<and> (IsNotFound e \<longrightarrow> \<not> IsNoMatchError e)
   \<and> (containsProtocol (Protocols (card_Spec acard)) ''mcp''
        \<and> fst (createOrUpdateUnstructured C (BuildMCPServerRegistration acard n) w) = Some e1
        \<and> (IsNoMatchError e1 \<or> IsNotFound e1)
      \<longrightarrow> fst (AgentCardReconciler_applyMCP C acard n w) = None)
   \<and> (fst (createOrUpdateUnstructured C (BuildAuthPolicy policy acard n) w) = Some e2
      \<longrightarrow> applyAuthPolicy C policy acard n (gen, errs, w) =
            (\<not> IsNoMatchError e2, gen,
             errs @ (if IsNoMatchError e2 then []
                     else [Wrapped (''failed to create/update AuthPolicy for card '' @ Name (card_Meta acard))
                             (FromClient e2)]),
             snd (snd (createOrUpdateUnstructured C (BuildAuthPolicy policy acard n) w))))
   \<and> (fst (createOrUpdateUnstructured C (BuildRateLimitPolicy policy acard n) w) = Some e3
      \<longrightarrow> applyRateLimitPolicy C policy acard n (gen, errs, w) =
            (\<not> IsNoMatchError e3, gen,
             errs @ (if IsNoMatchError e3 then []
                     else [Wrapped (''failed to create/update RateLimitPolicy for card '' @ Name (card_Meta acard))
                             (FromClient e3)]),
             snd (snd (createOrUpdateUnstructured C (BuildRateLimitPolicy policy acard n) w))))
   \<and> (failures w = 0
        \<and> (c, Some e4) \<in> set (trace (snd (snd (fanOut C Marshal policy items w))))
        \<and> (c = CallCreate (UnstructuredObject u) \<or> c = CallUpdate (UnstructuredObject u))
        \<and> IsNotFound e4
      \<longrightarrow> fst (AgentPolicyReconciler_fanOut C Marshal policy items w) =
            Some (HadErrors (fst (snd (fanOut C Marshal policy items w)))))"
proof -
  have m: "containsProtocol (Protocols (card_Spec acard)) ''mcp''
        \<and> fst (createOrUpdateUnstructured C (BuildMCPServerRegistration acard n) w) = Some e1
        \<and> (IsNoMatchError e1 \<or> IsNotFound e1)
      \<longrightarrow> fst (AgentCardReconciler_applyMCP C acard n w) = None"
    by (auto simp: AgentCardReconciler_applyMCP_def split_beta split: option.splits)
  have a: "fst (createOrUpdateUnstructured C (BuildAuthPolicy policy acard n) w) = Some e2
      \<longrightarrow> applyAuthPolicy C policy acard n (gen, errs, w) =
            (\<not> IsNoMatchError e2, gen,
             errs @ (if IsNoMatchError e2 then []
                     else [Wrapped (''failed to create/update AuthPolicy for card '' @ Name (card_Meta acard))
                             (FromClient e2)]),
             snd (snd (createOrUpdateUnstructured C (BuildAuthPolicy policy acard n) w)))"
    by (auto simp: applyAuthPolicy_def split: prod.splits option.splits)
  have r: "fst (createOrUpdateUnstructured C (BuildRateLimitPolicy policy acard n) w) = Some e3
      \<longrightarrow> applyRateLimitPolicy C policy acard n (gen, errs, w) =
            (\<not> IsNoMatchError e3, gen,
             errs @ (if IsNoMatchError e3 then []
                     else [Wrapped (''failed to create/update RateLimitPolicy for card '' @ Name (card_Meta acard))
                             (FromClient e3)]),
             snd (snd (createOrUpdateUnstructured C (BuildRateLimitPolicy policy acard n) w)))"
    by (auto simp: applyRateLimitPolicy_def split: prod.splits option.splits)
  have f: "fst (AgentPolicyReconciler_fanOut C Marshal policy items w) =
            Some (HadErrors (fst (snd (fanOut C Marshal policy items w))))"
    if h: "failures w = 0"
      "(c, Some e4) \<in> set (trace (snd (snd (fanOut C Marshal policy items w))))"
      "c = CallCreate (UnstructuredObject u) \<or> c = CallUpdate (UnstructuredObject u)"
      "IsNotFound e4"
  proof -
    from h(3,4) have "real_failure (c, Some e4)"
      by (auto dest: NotFound_not_NoMatch)
    with h(2) have pos: "0 < failures (snd (snd (fanOut C Marshal policy items w)))"
      by (rule failures_pos)
    obtain g e w1 where fo: "fanOut C Marshal policy items w = (g, e, w1)"
      by (cases "fanOut C Marshal policy items w")
    from balance_fanOut [of C Marshal policy items w] fo h(1) pos have "e \<noteq> []"
      by (auto split: if_splits)
    then show ?thesis
      by (simp add: AgentPolicyReconciler_fanOut_def fo updateStatus_result)
  qed
  from m a r f show ?thesis
    by (auto dest: NotFound_not_NoMatch)
qed

text \<open>
  Claim C10 on the in-memory platform where the create of each record is answered
  with NotFound.
\<close>

theorem classifiers_differ_witness:
  "isCRDNotFound (Some notFoundError) \<and> \<not> isCRDNotFoundPolicy (Some notFoundError) \<and> IsNotFound notFoundError
   \<and> containsProtocol (Protocols (card_Spec sampleCard)) ''mcp''
   \<and> fst (createOrUpdateUnstructured memory_client (BuildMCPServerRegistration sampleCard ''agent-weather'')
             degradedWorld) = Some notFoundError
   \<and> fst (AgentCardReconciler_applyMCP memory_client sampleCard ''agent-weather'' degradedWorld) = None
   \<and> fst (createOrUpdateUnstructured memory_client (BuildAuthPolicy samplePolicy sampleCard ''agent-weather'')
             degradedWorld) = Some notFoundError
   \<and> fst (snd (snd (applyAuthPolicy memory_client samplePolicy sampleCard ''agent-weather'' ([], [], degradedWorld)))) =
       [Wrapped ''failed to create/update AuthPolicy for card weather'' (FromClient notFoundError)]
   \<and> fst (createOrUpdateUnstructured memory_client (BuildRateLimitPolicy samplePolicy sampleCard ''agent-weather'')
             degradedWorld) = Some notFoundError
   \<and> fst (snd (snd (applyRateLimitPolicy memory_client samplePolicy sampleCard ''agent-weather'' ([], [], degradedWorld)))) =
       [Wrapped ''failed to create/update RateLimitPolicy for card weather'' (FromClient notFoundError)]
   \<and> failures degradedWorld = 0
   \<and> (CallCreate (UnstructuredObject sampleAuthPolicy), Some notFoundError)
        \<in> set (trace (snd (snd (fanOut memory_client testMarshal samplePolicy [sampleCard] degradedWorld))))
   \<and> fst (AgentPolicyReconciler_fanOut memory_client testMarshal samplePolicy [sampleCard] degradedWorld) =
       Some (HadErrors (fst (snd (fanOut memory_client testMarshal samplePolicy [sampleCard] degradedWorld))))"
proof -
  have h: "containsProtocol (Protocols (card_Spec sampleCard)) ''mcp''"
    "fst (createOrUpdateUnstructured memory_client (BuildMCPServerRegistration sampleCard ''agent-weather'')
             degradedWorld) = Some notFoundError"
    "fst (createOrUpdateUnstructured memory_client (BuildAuthPolicy samplePolicy sampleCard ''agent-weather'')
             degradedWorld) = Some notFoundError"
    "fst (createOrUpdateUnstructured memory_client (BuildRateLimitPolicy samplePolicy sampleCard ''agent-weather'')
             degradedWorld) = Some notFoundError"
    "IsNotFound notFoundError"
    "Name (card_Meta sampleCard) = ''weather''"
    "failures degradedWorld = 0"
    "(CallCreate (UnstructuredObject sampleAuthPolicy), Some notFoundError)
        \<in> set (trace (snd (snd (fanOut memory_client testMarshal samplePolicy [sampleCard] degradedWorld))))"
    by code_simp+
  show ?thesis
    using classifiers_differ [where e = notFoundError and acard = sampleCard and C = memory_client
        and n = "''agent-weather''" and w = degradedWorld and ?e1.0 = notFoundError
        and policy = samplePolicy and ?e2.0 = notFoundError and ?e3.0 = notFoundError
        and gen = "[]" and errs = "[]" and Marshal = testMarshal
        and items = "[sampleCard]" and ?e4.0 = notFoundError
        and c = "CallCreate (UnstructuredObject sampleAuthPolicy)" and u = sampleAuthPolicy]
      h
    by simp
qed

end
